theory Spec2Isabelle
  imports Complex_Main
begin

section \<open>Machine integers, time\<close>

text \<open>
  Go's \<open>int\<close> and \<open>int64\<close> are 64-bit two's complement. They are modelled as \<open>int\<close>;
  where the source computes (\<open>++\<close>, \<open>*\<close>) the wrap-around is written out with
  \<open>wrap64\<close>. Comparisons need no wrapping.

  A \<open>time.Time\<close> is an \<open>int\<close>: nanoseconds since the zero time, so that
  \<open>time.Time{}\<close> is \<open>0\<close>. A \<open>time.Duration\<close> is an \<open>int\<close> of nanoseconds.
\<close>

definition wrap64 :: "int \<Rightarrow> int" where
  "wrap64 x = signed_take_bit 63 x"

definition minInt64 :: int where
  "minInt64 = - (2 ^ 63)"

definition maxInt64 :: int where
  "maxInt64 = 2 ^ 63 - 1"

type_synonym time = int
type_synonym duration = int

definition Millisecond :: duration where
  "Millisecond = 1000000"

definition Second :: duration where
  "Second = 1000000000"

text \<open>\<open>t.Sub(u)\<close>, which \<open>time.Since\<close> calls: the difference, saturated to the
  range of a Duration.\<close>

definition time_Sub :: "time \<Rightarrow> time \<Rightarrow> duration" where
  "time_Sub t u = max minInt64 (min maxInt64 (t - u))"

text \<open>\<open>t.Add(d)\<close>.\<close>

definition time_Add :: "time \<Rightarrow> duration \<Rightarrow> time" where
  "time_Add t d = t + d"

section \<open>Retry strategy (package webhook, model.RetryConfig)\<close>

text \<open>
  \<open>Multiplier\<close> is a \<open>float64\<close>. It is modelled by a real number: for the default
  parameters every intermediate value \<open>1000 * 2 ^ k\<close> is either exactly representable
  or overflows to \<open>+Inf\<close>, and in both cases the comparison with \<open>MaxDelayMs\<close> and the
  result agree with the real-number computation.
\<close>

record RetryConfig =
  MaxAttempts :: int
  InitialDelayMs :: int
  MaxDelayMs :: int
  Multiplier :: real

definition SetDefaults :: "RetryConfig \<Rightarrow> RetryConfig" where
  "SetDefaults rc =
     (let rc1 = (if MaxAttempts rc = 0 then rc\<lparr>MaxAttempts := 3\<rparr> else rc);
          rc2 = (if InitialDelayMs rc1 = 0 then rc1\<lparr>InitialDelayMs := 1000\<rparr> else rc1);
          rc3 = (if MaxDelayMs rc2 = 0 then rc2\<lparr>MaxDelayMs := 30000\<rparr> else rc2);
          rc4 = (if Multiplier rc3 = 0 then rc3\<lparr>Multiplier := 2\<rparr> else rc3)
      in rc4)"

record RetryStrategy =
  config :: RetryConfig

definition NewRetryStrategy :: "RetryConfig \<Rightarrow> RetryStrategy" where
  "NewRetryStrategy cfg = \<lparr>config = SetDefaults cfg\<rparr>"

text \<open>The conversion \<open>time.Duration(delayMs)\<close> of a float to \<open>int64\<close>: truncation
  towards zero; out of range the result is the one of amd64 (the minimal value).\<close>

definition float_to_int64 :: "real \<Rightarrow> int" where
  "float_to_int64 r =
     (let k = (if 0 \<le> r then \<lfloor>r\<rfloor> else \<lceil>r\<rceil>)
      in if minInt64 \<le> k \<and> k \<le> maxInt64 then k else minInt64)"

definition CalculateDelay :: "RetryStrategy \<Rightarrow> int \<Rightarrow> duration" where
  "CalculateDelay rs attempt =
     (if attempt \<le> 0 then 0
      else
        let delayMs = real_of_int (InitialDelayMs (config rs))
                        * Multiplier (config rs) ^ nat (attempt - 1);
            delayMs' = (if delayMs > real_of_int (MaxDelayMs (config rs))
                        then real_of_int (MaxDelayMs (config rs)) else delayMs)
        in wrap64 (float_to_int64 delayMs' * Millisecond))"

text \<open>A Go \<open>error\<close> value is \<open>None\<close> for \<open>nil\<close>, else \<open>Some\<close> of its message.\<close>

type_synonym error = "string option"

definition ShouldRetry :: "RetryStrategy \<Rightarrow> int \<Rightarrow> int \<Rightarrow> error \<Rightarrow> bool" where
  "ShouldRetry rs attempt statusCode err =
     (if attempt \<ge> MaxAttempts (config rs) then False
      else if err \<noteq> None then True
      else if statusCode \<ge> 500 \<and> statusCode < 600 then True
      else if statusCode = 429 then True
      else if statusCode \<ge> 400 \<and> statusCode < 500 then False
      else if statusCode \<ge> 300 then True
      else False)"

definition GetMaxAttempts :: "RetryStrategy \<Rightarrow> int" where
  "GetMaxAttempts rs = MaxAttempts (config rs)"

section \<open>Circuit breaker (package webhook)\<close>

datatype CircuitState = StateClosed | StateOpen | StateHalfOpen

record CircuitBreaker =
  state :: CircuitState
  failureCount :: int
  successCount :: int
  lastFailureTime :: time
  lastStateChange :: time
  failureThreshold :: int
  successThreshold :: int
  timeout :: duration

text \<open>Every function that reads the clock takes the reading \<open>now\<close> as an argument.\<close>

definition NewCircuitBreaker :: "time \<Rightarrow> CircuitBreaker" where
  "NewCircuitBreaker now =
     \<lparr>state = StateClosed, failureCount = 0, successCount = 0, lastFailureTime = 0,
      lastStateChange = now, failureThreshold = 5, successThreshold = 2,
      timeout = 60 * Second\<rparr>"

definition CanAttempt :: "CircuitBreaker \<Rightarrow> time \<Rightarrow> bool \<times> CircuitBreaker" where
  "CanAttempt cb now =
     (case state cb of
        StateClosed \<Rightarrow> (True, cb)
      | StateOpen \<Rightarrow>
          if time_Sub now (lastStateChange cb) \<ge> timeout cb
          then (True, cb\<lparr>state := StateHalfOpen, successCount := 0, failureCount := 0\<rparr>)
          else (False, cb)
      | StateHalfOpen \<Rightarrow> (True, cb))"

definition RecordSuccess :: "CircuitBreaker \<Rightarrow> time \<Rightarrow> CircuitBreaker" where
  "RecordSuccess cb now =
     (let cb1 = cb\<lparr>lastFailureTime := 0\<rparr>
      in case state cb1 of
           StateClosed \<Rightarrow> cb1\<lparr>failureCount := 0\<rparr>
         | StateHalfOpen \<Rightarrow>
             (let cb2 = cb1\<lparr>successCount := wrap64 (successCount cb1 + 1)\<rparr>
              in if successCount cb2 \<ge> successThreshold cb2
                 then cb2\<lparr>state := StateClosed, failureCount := 0, successCount := 0,
                          lastStateChange := now\<rparr>
                 else cb2)
         | StateOpen \<Rightarrow> cb1)"

definition RecordFailure :: "CircuitBreaker \<Rightarrow> time \<Rightarrow> CircuitBreaker" where
  "RecordFailure cb now =
     (let cb1 = cb\<lparr>lastFailureTime := now, failureCount := wrap64 (failureCount cb + 1)\<rparr>
      in case state cb1 of
           StateClosed \<Rightarrow>
             if failureCount cb1 \<ge> failureThreshold cb1
             then cb1\<lparr>state := StateOpen, lastStateChange := now\<rparr>
             else cb1
         | StateHalfOpen \<Rightarrow>
             cb1\<lparr>state := StateOpen, lastStateChange := now, successCount := 0\<rparr>
         | StateOpen \<Rightarrow> cb1)"

definition GetState :: "CircuitBreaker \<Rightarrow> CircuitState" where
  "GetState cb = state cb"

definition GetStateName :: "CircuitBreaker \<Rightarrow> string" where
  "GetStateName cb =
     (case GetState cb of
        StateClosed \<Rightarrow> ''closed''
      | StateOpen \<Rightarrow> ''open''
      | StateHalfOpen \<Rightarrow> ''half-open'')"

text \<open>A history of calls on one breaker, each with the clock reading it makes.\<close>

datatype cb_call = CallRecordSuccess time | CallRecordFailure time

fun is_failure :: "cb_call \<Rightarrow> bool" where
  "is_failure (CallRecordFailure _) = True"
| "is_failure (CallRecordSuccess _) = False"

fun cb_step :: "CircuitBreaker \<Rightarrow> cb_call \<Rightarrow> CircuitBreaker" where
  "cb_step cb (CallRecordSuccess now) = RecordSuccess cb now"
| "cb_step cb (CallRecordFailure now) = RecordFailure cb now"

definition cb_run :: "CircuitBreaker \<Rightarrow> cb_call list \<Rightarrow> CircuitBreaker" where
  "cb_run cb calls = foldl cb_step cb calls"

text \<open>The number of failures at the end of a history, since the last success.\<close>

definition streak :: "cb_call list \<Rightarrow> nat" where
  "streak calls = length (takeWhile is_failure (rev calls))"

text \<open>The history contains \<open>n\<close> consecutive failures, with no success between them.\<close>

definition has_failure_run :: "nat \<Rightarrow> cb_call list \<Rightarrow> bool" where
  "has_failure_run n calls =
     (\<exists>pre mid post. calls = pre @ mid @ post \<and> length mid = n \<and> list_all is_failure mid)"

text \<open>The invariant of a breaker that has seen the history \<open>calls\<close> since its creation.\<close>

definition cb_inv :: "cb_call list \<Rightarrow> CircuitBreaker \<Rightarrow> bool" where
  "cb_inv calls cb \<longleftrightarrow> failureThreshold cb = 5 \<and>
     (if has_failure_run 5 calls then state cb = StateOpen
      else state cb = StateClosed \<and> failureCount cb = int (streak calls) \<and> streak calls < 5)"

section \<open>Values of dynamic type and the library the code calls\<close>

text \<open>
  A \<open>float64\<close> is its real value, or one of the three special values. Comparison is
  the one of IEEE 754: \<open>NaN\<close> is neither equal to nor less than anything.
\<close>

datatype float64 = Float real | PosInf | NegInf | NaN

fun f_eq :: "float64 \<Rightarrow> float64 \<Rightarrow> bool" where
  "f_eq (Float a) (Float b) = (a = b)"
| "f_eq PosInf PosInf = True"
| "f_eq NegInf NegInf = True"
| "f_eq _ _ = False"

fun f_lt :: "float64 \<Rightarrow> float64 \<Rightarrow> bool" where
  "f_lt (Float a) (Float b) = (a < b)"
| "f_lt NegInf (Float b) = True"
| "f_lt NegInf PosInf = True"
| "f_lt (Float a) PosInf = True"
| "f_lt _ _ = False"

text \<open>
  An \<open>interface{}\<close> value, by its dynamic type: the types the type switches of the
  source name, the slices and maps that \<open>encoding/json\<close> decodes into, and \<open>VOther tn\<close>
  for a value of any other type, named \<open>tn\<close>. A \<open>float32\<close> is held by the
  \<open>float64\<close> it converts to.
\<close>

datatype val =
    VNil
  | VBool bool
  | VFloat64 float64
  | VFloat32 float64
  | VInt int
  | VInt32 int
  | VInt64 int
  | VString string
  | VSlice "val list"
  | VMap "(string \<times> val) list"
  | VOther string

text \<open>The verb \<open>%T\<close> of package fmt.\<close>

fun TypeName :: "val \<Rightarrow> string" where
  "TypeName VNil = ''<nil>''"
| "TypeName (VBool _) = ''bool''"
| "TypeName (VFloat64 _) = ''float64''"
| "TypeName (VFloat32 _) = ''float32''"
| "TypeName (VInt _) = ''int''"
| "TypeName (VInt32 _) = ''int32''"
| "TypeName (VInt64 _) = ''int64''"
| "TypeName (VString _) = ''string''"
| "TypeName (VSlice _) = ''[]interface {}''"
| "TypeName (VMap _) = ''map[string]interface {}''"
| "TypeName (VOther tn) = tn"

type_synonym ObjectID = nat

text \<open>
  The functions of the Go standard library and of the third-party packages that the
  code calls and that are not part of the repository. Every function of the model that
  reaches one of them takes this record as its first argument \<open>L\<close>.
  A compiled regular expression or JSONPath is held by its source text.
\<close>

record golib =
  ToLower :: "string \<Rightarrow> string"
  TrimSpace :: "string \<Rightarrow> string"
  Sprint :: "val \<Rightarrow> string"
  ParseFloat :: "string \<Rightarrow> float64 option"
  Float64OfInt :: "int \<Rightarrow> float64"
  RegexpCompile :: "string \<Rightarrow> error"
  MatchString :: "string \<Rightarrow> string \<Rightarrow> bool"
  JsonUnmarshal :: "string \<Rightarrow> string + val"
  JsonMarshalText :: "string \<Rightarrow> string + string"
  JsonpathCompile :: "string \<Rightarrow> error"
  JsonpathLookup :: "string \<Rightarrow> val \<Rightarrow> string + val"
  NewRequestErr :: "string \<Rightarrow> string \<Rightarrow> error"
  FormatRFC3339 :: "time \<Rightarrow> string"
  ObjectIDFromHex :: "string \<Rightarrow> string + ObjectID"

text \<open>\<open>strings.Contains\<close>: a substring test on bytes.\<close>

fun has_prefix :: "string \<Rightarrow> string \<Rightarrow> bool" where
  "has_prefix s [] = True"
| "has_prefix [] (c # cs) = False"
| "has_prefix (x # xs) (c # cs) = (x = c \<and> has_prefix xs cs)"

fun str_contains :: "string \<Rightarrow> string \<Rightarrow> bool" where
  "str_contains [] sub = (sub = [])"
| "str_contains (x # xs) sub = (has_prefix (x # xs) sub \<or> str_contains xs sub)"

text \<open>The verb \<open>%d\<close> of package fmt.\<close>

fun digits :: "nat \<Rightarrow> string" where
  "digits n = (if n < 10 then [char_of (48 + n)] else digits (n div 10) @ [char_of (48 + n mod 10)])"

definition itoa :: "int \<Rightarrow> string" where
  "itoa i = (if i < 0 then CHR ''-'' # digits (nat (- i)) else digits (nat i))"

definition quote :: string where
  "quote = [CHR 0x27]"

section \<open>Type coercion (package evaluator)\<close>

definition CoerceToString :: "golib \<Rightarrow> val \<Rightarrow> string" where
  "CoerceToString L v = (if v = VNil then ''null'' else Sprint L v)"

fun CoerceToNumber :: "golib \<Rightarrow> val \<Rightarrow> string + float64" where
  "CoerceToNumber L (VFloat64 v) = Inr v"
| "CoerceToNumber L (VFloat32 v) = Inr v"
| "CoerceToNumber L (VInt v) = Inr (Float64OfInt L v)"
| "CoerceToNumber L (VInt32 v) = Inr (Float64OfInt L v)"
| "CoerceToNumber L (VInt64 v) = Inr (Float64OfInt L v)"
| "CoerceToNumber L (VString v) =
     (case ParseFloat L v of
        None \<Rightarrow> Inl (''cannot convert string '' @ quote @ v @ quote @ '' to number'')
      | Some num \<Rightarrow> Inr num)"
| "CoerceToNumber L v = Inl (''cannot convert '' @ TypeName v @ '' to number'')"

text \<open>
  In the cases \<open>int, int32, int64\<close> and \<open>float32, float64\<close> of the type switch the
  variable keeps its interface type, and \<open>v != 0\<close> compares it with the constant of the
  default type (\<open>int\<close>, \<open>float64\<close>): a value of another dynamic type differs from it.
\<close>

fun CoerceToBool :: "golib \<Rightarrow> val \<Rightarrow> bool" where
  "CoerceToBool L VNil = False"
| "CoerceToBool L (VBool v) = v"
| "CoerceToBool L (VString v) =
     (let lower = ToLower L (TrimSpace L v)
      in if lower = ''true'' \<or> lower = ''1'' \<or> lower = ''yes'' then True
         else if lower = ''false'' \<or> lower = ''0'' \<or> lower = ''no'' \<or> lower = '''' then False
         else length v > 0)"
| "CoerceToBool L (VInt v) = (v \<noteq> 0)"
| "CoerceToBool L (VInt32 v) = True"
| "CoerceToBool L (VInt64 v) = True"
| "CoerceToBool L (VFloat32 v) = True"
| "CoerceToBool L (VFloat64 v) = (\<not> f_eq v (Float 0))"
| "CoerceToBool L v = True"

definition AreEqual :: "golib \<Rightarrow> val \<Rightarrow> val \<Rightarrow> bool" where
  "AreEqual L a b =
     (if a = VNil \<and> b = VNil then True
      else if a = VNil \<or> b = VNil then
        (if a = VNil \<and> CoerceToString L b = ''null'' then False
         else if b = VNil \<and> CoerceToString L a = ''null'' then False
         else False)
      else
        case (CoerceToNumber L a, CoerceToNumber L b) of
          (Inr numA, Inr numB) \<Rightarrow> f_eq numA numB
        | _ \<Rightarrow>
          (case a of
             VBool boolA \<Rightarrow> boolA = CoerceToBool L b
           | _ \<Rightarrow>
             (case b of
                VBool boolB \<Rightarrow> CoerceToBool L a = boolB
              | _ \<Rightarrow> CoerceToString L a = CoerceToString L b)))"

definition CompareNumbers :: "golib \<Rightarrow> val \<Rightarrow> val \<Rightarrow> string + int" where
  "CompareNumbers L a b =
     (case CoerceToNumber L a of
        Inl e \<Rightarrow> Inl (''cannot compare: left value - '' @ e)
      | Inr numA \<Rightarrow>
          (case CoerceToNumber L b of
             Inl e \<Rightarrow> Inl (''cannot compare: right value - '' @ e)
           | Inr numB \<Rightarrow>
               if f_lt numA numB then Inr (- 1)
               else if f_lt numB numA then Inr 1
               else Inr 0))"

section \<open>Operators (package evaluator)\<close>

text \<open>An operator returns the pair \<open>(bool, error)\<close> of the source.\<close>

definition evaluateEquals :: "golib \<Rightarrow> val \<Rightarrow> val \<Rightarrow> bool \<times> error" where
  "evaluateEquals L extracted expected = (AreEqual L extracted expected, None)"

definition evaluateGreaterThan :: "golib \<Rightarrow> val \<Rightarrow> val \<Rightarrow> bool \<times> error" where
  "evaluateGreaterThan L extracted expected =
     (case CompareNumbers L extracted expected of
        Inl e \<Rightarrow> (False, Some e)
      | Inr cmp \<Rightarrow> (cmp > 0, None))"

definition evaluateLessThan :: "golib \<Rightarrow> val \<Rightarrow> val \<Rightarrow> bool \<times> error" where
  "evaluateLessThan L extracted expected =
     (case CompareNumbers L extracted expected of
        Inl e \<Rightarrow> (False, Some e)
      | Inr cmp \<Rightarrow> (cmp < 0, None))"

definition evaluateGreaterThanOrEqual :: "golib \<Rightarrow> val \<Rightarrow> val \<Rightarrow> bool \<times> error" where
  "evaluateGreaterThanOrEqual L extracted expected =
     (case CompareNumbers L extracted expected of
        Inl e \<Rightarrow> (False, Some e)
      | Inr cmp \<Rightarrow> (cmp \<ge> 0, None))"

definition evaluateLessThanOrEqual :: "golib \<Rightarrow> val \<Rightarrow> val \<Rightarrow> bool \<times> error" where
  "evaluateLessThanOrEqual L extracted expected =
     (case CompareNumbers L extracted expected of
        Inl e \<Rightarrow> (False, Some e)
      | Inr cmp \<Rightarrow> (cmp \<le> 0, None))"

definition evaluateContains :: "golib \<Rightarrow> val \<Rightarrow> val \<Rightarrow> bool \<times> error" where
  "evaluateContains L extracted expected =
     (let extractedStr = CoerceToString L extracted;
          expectedStr = CoerceToString L expected
      in case extracted of
           VSlice arr \<Rightarrow> (list_ex (\<lambda>item. AreEqual L item expected) arr, None)
         | _ \<Rightarrow> (str_contains extractedStr expectedStr, None))"

definition evaluateExists :: "val \<Rightarrow> bool \<times> error" where
  "evaluateExists extracted = (extracted \<noteq> VNil, None)"

definition evaluateRegex :: "golib \<Rightarrow> val \<Rightarrow> val \<Rightarrow> bool \<times> error" where
  "evaluateRegex L extracted expected =
     (let extractedStr = CoerceToString L extracted;
          patternStr = CoerceToString L expected
      in case RegexpCompile L patternStr of
           Some e \<Rightarrow> (False, Some (''invalid regex pattern '' @ quote @ patternStr @ quote @ '': '' @ e))
         | None \<Rightarrow> (MatchString L patternStr extractedStr, None))"

definition EvaluateOperator :: "golib \<Rightarrow> string \<Rightarrow> val \<Rightarrow> val \<Rightarrow> bool \<times> error" where
  "EvaluateOperator L operator extractedValue expectedValue =
     (let op = ToLower L operator
      in if op = ''eq'' then evaluateEquals L extractedValue expectedValue
         else if op = ''ne'' then
           (let (result, err) = evaluateEquals L extractedValue expectedValue in (\<not> result, err))
         else if op = ''gt'' then evaluateGreaterThan L extractedValue expectedValue
         else if op = ''lt'' then evaluateLessThan L extractedValue expectedValue
         else if op = ''gte'' then evaluateGreaterThanOrEqual L extractedValue expectedValue
         else if op = ''lte'' then evaluateLessThanOrEqual L extractedValue expectedValue
         else if op = ''contains'' then evaluateContains L extractedValue expectedValue
         else if op = ''exists'' then evaluateExists extractedValue
         else if op = ''regex'' then evaluateRegex L extractedValue expectedValue
         else (False, Some (''unknown operator: '' @ operator)))"

section \<open>Rule evaluation (package evaluator, model.Rule, model.RuleEvaluation)\<close>

text \<open>
  Field names that several structs share carry a prefix for their struct:
  \<open>ru_\<close> Rule, \<open>ev_\<close> RuleEvaluation, and so on below.
\<close>

record Rule =
  ru_Name :: string
  ru_Description :: string
  ru_Expression :: string
  ru_Operator :: string
  ru_ExpectedValue :: val
  ru_AlertOnMatch :: bool

record RuleEvaluation =
  ev_RuleName :: string
  ev_Expression :: string
  ev_ExtractedValue :: val
  ev_ExpectedValue :: val
  ev_Operator :: string
  ev_Matched :: bool
  ev_Error :: string

definition extractValue :: "golib \<Rightarrow> val \<Rightarrow> string \<Rightarrow> string + val" where
  "extractValue L jsonData expression =
     (case JsonpathCompile L expression of
        Some e \<Rightarrow>
          Inl (''invalid JSONPath expression '' @ quote @ expression @ quote @ '': '' @ e)
      | None \<Rightarrow>
          (case JsonpathLookup L expression jsonData of
             Inl e \<Rightarrow>
               Inl (''JSONPath expression '' @ quote @ expression @ quote
                      @ '' returned no results: '' @ e)
           | Inr result \<Rightarrow> Inr result))"

definition EvaluateRule :: "golib \<Rightarrow> Rule \<Rightarrow> string \<Rightarrow> RuleEvaluation" where
  "EvaluateRule L rule responseBody =
     (let result = \<lparr>ev_RuleName = ru_Name rule, ev_Expression = ru_Expression rule,
                     ev_ExtractedValue = VNil, ev_ExpectedValue = ru_ExpectedValue rule,
                     ev_Operator = ru_Operator rule, ev_Matched = False, ev_Error = ''''\<rparr>
      in case JsonUnmarshal L responseBody of
           Inl e \<Rightarrow> result\<lparr>ev_Error := ''Failed to parse JSON response: '' @ e\<rparr>
         | Inr jsonData \<Rightarrow>
             (case extractValue L jsonData (ru_Expression rule) of
                Inl e \<Rightarrow> result\<lparr>ev_Error := e\<rparr>
              | Inr extractedValue \<Rightarrow>
                  (let result1 = result\<lparr>ev_ExtractedValue := extractedValue\<rparr>;
                       (matched, err) =
                          EvaluateOperator L (ru_Operator rule) extractedValue (ru_ExpectedValue rule)
                   in case err of
                        Some e \<Rightarrow> result1\<lparr>ev_Error := e\<rparr>
                      | None \<Rightarrow> result1\<lparr>ev_Matched := matched\<rparr>)))"

definition EvaluateRules :: "golib \<Rightarrow> Rule list \<Rightarrow> string \<Rightarrow> RuleEvaluation list" where
  "EvaluateRules L rules responseBody = map (\<lambda>rule. EvaluateRule L rule responseBody) rules"

definition GetMatchedRulesForAlert :: "RuleEvaluation list \<Rightarrow> Rule list \<Rightarrow> RuleEvaluation list" where
  "GetMatchedRulesForAlert evaluations rules =
     (let alertMap = foldl (\<lambda>m rule. m(ru_Name rule \<mapsto> ru_AlertOnMatch rule)) Map.empty rules
      in filter (\<lambda>eval. ev_Matched eval \<and> (case alertMap (ev_RuleName eval) of
                                               None \<Rightarrow> False | Some b \<Rightarrow> b)) evaluations)"

section \<open>The world outside the process\<close>

text \<open>
  What the HTTP client, the context and the database driver answer is not decided by
  the code: it is read from an environment \<open>env\<close>. The \<open>k\<close>-th call of \<open>client.Do\<close> of
  the process gets the outcome \<open>http_do env k\<close> and takes \<open>http_elapsed env k\<close>; the
  \<open>k\<close>-th database operation fails with \<open>e\<close> when \<open>db_fault env k = Some e\<close>.

  An execution has one context \<open>ctx\<close>, which Execute hands to every repository call, to
  callTargetAPI and, through triggerAlert, to SendAlert and deliverWebhook. The
  environment fixes the instant \<open>ctx_cancelled_at env\<close> at which it is cancelled, if it
  ever is; from then on \<open>ctx.Done()\<close> is closed and \<open>ctx.Err()\<close> has the text
  \<open>ctx_Err env\<close>. A call of \<open>client.Do\<close> or a database operation that the context ends
  or finds cancelled returns the error \<open>http_aborted env k\<close> or \<open>db_aborted env k\<close>. When a
  \<open>select\<close> finds the timer and \<open>ctx.Done()\<close> ready at the same instant, \<open>select_ctx env k\<close>
  tells whether it takes \<open>ctx.Done()\<close>. The timeouts of the HTTP clients and the
  deadlines that callTargetAPI and the repositories add to the context are the
  environment's: what they end shows as an outcome \<open>DoError\<close> or as a fault.
\<close>

record http_response =
  hr_StatusCode :: int
  hr_Header :: "string \<rightharpoonup> string list"
  hr_Body :: string
  hr_ReadErr :: error

datatype http_outcome = DoError string | DoResponse http_response

record env =
  http_do :: "nat \<Rightarrow> http_outcome"
  http_elapsed :: "nat \<Rightarrow> duration"
  http_aborted :: "nat \<Rightarrow> string"
  ctx_cancelled_at :: "time option"
  ctx_Err :: string
  select_ctx :: "nat \<Rightarrow> bool"
  db_fault :: "nat \<Rightarrow> error"
  db_aborted :: "nat \<Rightarrow> string"

definition ctx_done :: "env \<Rightarrow> time \<Rightarrow> bool" where
  "ctx_done env t \<longleftrightarrow> (case ctx_cancelled_at env of None \<Rightarrow> False | Some T \<Rightarrow> T \<le> t)"

text \<open>\<open>d.Milliseconds()\<close>: integer division, which truncates towards zero in Go.\<close>

definition go_div :: "int \<Rightarrow> int \<Rightarrow> int" where
  "go_div a b = sgn a * sgn b * (\<bar>a\<bar> div \<bar>b\<bar>)"

definition Milliseconds :: "duration \<Rightarrow> int" where
  "Milliseconds d = go_div d Millisecond"

text \<open>
  \<open>io.ReadAll(io.LimitReader(body, n))\<close>: the bytes read and the error. \<open>hr_Body\<close>
  holds the bytes that arrive; when \<open>hr_ReadErr\<close> is an error, it strikes after them,
  unless the limit ends the reading before.
\<close>

definition ReadAllLimit :: "http_response \<Rightarrow> nat \<Rightarrow> string \<times> error" where
  "ReadAllLimit r n =
     (if length (hr_Body r) \<ge> n then (take n (hr_Body r), None)
      else (hr_Body r, hr_ReadErr r))"

section \<open>Data model (package model)\<close>

record Webhook =
  wh_URL :: string
  wh_Method :: string
  wh_Headers :: "string \<rightharpoonup> string"
  wh_RetryConfig :: RetryConfig

record AlertAttempt =
  at_AttemptNumber :: int
  at_Timestamp :: time
  at_StatusCode :: int
  at_ResponseBody :: string
  at_Error :: string
  at_DurationMs :: int

record AlertPayload =
  ap_Text :: string

record AlertLog =
  al_ID :: ObjectID
  al_ExecutionID :: ObjectID
  al_CorrelationID :: string
  al_ConfigID :: ObjectID
  al_WebhookURL :: string
  al_Payload :: AlertPayload
  al_Attempts :: "AlertAttempt list"
  al_FinalStatus :: string
  al_AcknowledgmentStatus :: string
  al_AcknowledgedBy :: string
  al_AcknowledgedAt :: time
  al_CreatedAt :: time
  al_CompletedAt :: time

record AlertPayloadData =
  pd_Text :: string
  pd_Metadata :: "string \<rightharpoonup> val"
  pd_Details :: "string \<rightharpoonup> val"

record Auth =
  au_Type :: string
  au_Username :: string
  au_Password :: string
  au_Token :: string

record Target =
  tg_URL :: string
  tg_Method :: string
  tg_Headers :: "string \<rightharpoonup> string"
  tg_Body :: string
  tg_Auth :: Auth
  tg_Timeout :: int

record HealthCheckConfig =
  hc_ID :: ObjectID
  hc_Name :: string
  hc_Description :: string
  hc_Enabled :: bool
  hc_Target :: Target
  hc_Rules :: "Rule list"
  hc_Webhook :: Webhook
  hc_Schedule :: string
  hc_ScheduleEnabled :: bool
  hc_LastScheduledRun :: time
  hc_NextScheduledRun :: time

record ExecutionRequest =
  rq_URL :: string
  rq_Method :: string
  rq_Headers :: "string \<rightharpoonup> string"
  rq_Body :: string

record ExecutionResponse =
  rp_StatusCode :: int
  rp_Headers :: "string \<rightharpoonup> string"
  rp_Body :: string
  rp_Error :: string

record AlertTriggered =
  tr_AlertID :: ObjectID
  tr_TriggeredByRule :: string
  tr_WebhookURL :: string

record ExecutionHistory =
  eh_ID :: ObjectID
  eh_CorrelationID :: string
  eh_ConfigID :: ObjectID
  eh_ConfigName :: string
  eh_ExecutedAt :: time
  eh_DurationMs :: int
  eh_Request :: ExecutionRequest
  eh_Response :: ExecutionResponse
  eh_RulesEvaluation :: "RuleEvaluation list"
  eh_AlertsTriggered :: "AlertTriggered list"
  eh_Status :: string

section \<open>The state of the process and of the document store\<close>

text \<open>
  The clock, the counters that index the environment, the number of ObjectIDs issued,
  the dispatcher's circuit breaker, and the collections of the store.
  An ObjectID is a number, \<open>0\<close> the zero ObjectID; \<open>NewObjectID\<close> never returns the zero
  ObjectID and never returns an ObjectID twice.
\<close>

record sys =
  clock :: time
  http_calls :: nat
  db_ops :: nat
  ids_issued :: nat
  circuitBreaker :: CircuitBreaker
  health_check_configs :: "HealthCheckConfig list"
  execution_history :: "ExecutionHistory list"
  alert_logs :: "AlertLog list"

definition NewObjectID :: "sys \<Rightarrow> ObjectID \<times> sys" where
  "NewObjectID s = (Suc (ids_issued s), s\<lparr>ids_issued := Suc (ids_issued s)\<rparr>)"

text \<open>
  \<open>client.Do(req)\<close> for a request made with the context of the execution: it returns at
  once when the context is cancelled already, it returns at the instant of the
  cancellation when that comes before the answer, and otherwise it returns the answer.
\<close>

definition client_Do :: "env \<Rightarrow> sys \<Rightarrow> http_outcome \<times> sys" where
  "client_Do env s =
     (let k = http_calls s;
          answered = time_Add (clock s) (http_elapsed env k)
      in if ctx_done env (clock s)
         then (DoError (http_aborted env k), s\<lparr>http_calls := Suc k\<rparr>)
         else if ctx_done env answered
         then (DoError (http_aborted env k),
               s\<lparr>http_calls := Suc k,
                 clock := (case ctx_cancelled_at env of None \<Rightarrow> answered | Some T \<Rightarrow> T)\<rparr>)
         else (http_do env k, s\<lparr>http_calls := Suc k, clock := answered\<rparr>))"

text \<open>
  The \<open>select\<close> of SendAlert between \<open>time.After(delay)\<close> and \<open>ctx.Done()\<close>, entered at the
  instant \<open>c\<close> after \<open>k\<close> calls of \<open>client.Do\<close>: the instant at which it returns, and whether
  it has taken \<open>ctx.Done()\<close>.
\<close>

definition select_After_Done :: "env \<Rightarrow> nat \<Rightarrow> time \<Rightarrow> duration \<Rightarrow> bool \<times> time" where
  "select_After_Done env k c delay =
     (let fires = time_Add c (max 0 delay)
      in case ctx_cancelled_at env of
           None \<Rightarrow> (False, fires)
         | Some T \<Rightarrow>
             (let closed = max c T
              in if closed < fires \<or> (closed = fires \<and> select_ctx env k)
                 then (True, closed) else (False, fires)))"

text \<open>The error of a database operation: that of the context, or the next fault.\<close>

definition db_error :: "env \<Rightarrow> sys \<Rightarrow> error" where
  "db_error env s =
     (if ctx_done env (clock s) then Some (db_aborted env (db_ops s))
      else db_fault env (db_ops s))"

section \<open>Webhook dispatcher (package webhook)\<close>

text \<open>
  The request that deliverWebhook builds (method, URL, body, headers) goes to the
  environment; the model keeps what the code reads back from the round trip. Calls of the
  logger are left out throughout.
\<close>

definition deliverWebhook ::
  "golib \<Rightarrow> env \<Rightarrow> sys \<Rightarrow> Webhook \<Rightarrow> AlertPayloadData \<Rightarrow> (AlertAttempt \<times> error) \<times> sys" where
  "deliverWebhook L env s webhook payload =
     (let start = clock s;
          attempt = \<lparr>at_AttemptNumber = 0, at_Timestamp = start, at_StatusCode = 0,
                     at_ResponseBody = '''', at_Error = '''', at_DurationMs = 0\<rparr>
      in case JsonMarshalText L (pd_Text payload) of
           Inl e \<Rightarrow>
             ((attempt\<lparr>at_Error := ''Failed to marshal payload: '' @ e,
                        at_DurationMs := Milliseconds (time_Sub (clock s) start)\<rparr>, Some e), s)
         | Inr payloadBytes \<Rightarrow>
             (case NewRequestErr L (wh_Method webhook) (wh_URL webhook) of
                Some e \<Rightarrow>
                  ((attempt\<lparr>at_Error := ''Failed to create request: '' @ e,
                             at_DurationMs := Milliseconds (time_Sub (clock s) start)\<rparr>, Some e), s)
              | None \<Rightarrow>
                  (case client_Do env s of
                     (DoError e, s1) \<Rightarrow>
                       ((attempt\<lparr>at_Error := ''Request failed: '' @ e,
                                  at_DurationMs := Milliseconds (time_Sub (clock s1) start)\<rparr>,
                         Some e), s1)
                   | (DoResponse resp, s1) \<Rightarrow>
                          (let (bodyBytes, readErr) = ReadAllLimit resp 1024;
                               attempt1 = attempt\<lparr>at_StatusCode := hr_StatusCode resp,
                                                   at_ResponseBody := bodyBytes,
                                                   at_DurationMs := Milliseconds (time_Sub (clock s1) start)\<rparr>
                           in if hr_StatusCode resp < 200 \<or> hr_StatusCode resp \<ge> 300
                              then ((attempt1\<lparr>at_Error := ''Webhook returned status ''
                                                               @ itoa (hr_StatusCode resp)\<rparr>,
                                     Some (''webhook returned status '' @ itoa (hr_StatusCode resp))), s1)
                              else ((attempt1, None), s1)))))"

text \<open>
  The retry loop of SendAlert, from attempt number \<open>attempt\<close> on. The increment of
  \<open>attempt\<close> cannot overflow: it is reached only when ShouldRetry has returned true, that
  is below \<open>MaxAttempts\<close>.
\<close>

function send_loop ::
  "golib \<Rightarrow> env \<Rightarrow> RetryStrategy \<Rightarrow> Webhook \<Rightarrow> AlertPayloadData \<Rightarrow> int \<Rightarrow> AlertLog \<Rightarrow> sys
     \<Rightarrow> (AlertLog \<times> error) \<times> sys" where
  "send_loop L env retryStrategy webhook payload attempt alertLog s =
     (if attempt \<le> GetMaxAttempts retryStrategy then
        (let ((attemptResult, err), s1) = deliverWebhook L env s webhook payload;
             alertLog1 = alertLog\<lparr>al_Attempts := al_Attempts alertLog @ [attemptResult]\<rparr>
         in if err = None \<and> at_StatusCode attemptResult \<ge> 200 \<and> at_StatusCode attemptResult < 300
            then ((alertLog1\<lparr>al_FinalStatus := ''delivered'', al_CompletedAt := clock s1\<rparr>, None),
                  s1\<lparr>circuitBreaker := RecordSuccess (circuitBreaker s1) (clock s1)\<rparr>)
            else if \<not> ShouldRetry retryStrategy attempt (at_StatusCode attemptResult) err
            then ((alertLog1\<lparr>al_FinalStatus := ''failed'', al_CompletedAt := clock s1\<rparr>,
                   Some (''webhook delivery failed after '' @ itoa attempt @ '' attempts'')),
                  s1\<lparr>circuitBreaker := RecordFailure (circuitBreaker s1) (clock s1)\<rparr>)
            else if attempt < GetMaxAttempts retryStrategy then
              (let delay = CalculateDelay retryStrategy attempt;
                   (cancelled, woken) = select_After_Done env (http_calls s1) (clock s1) delay;
                   s2 = s1\<lparr>clock := woken\<rparr>
               in if cancelled
                  then ((alertLog1\<lparr>al_FinalStatus := ''failed'', al_CompletedAt := clock s2\<rparr>,
                         Some (ctx_Err env)), s2)
                  else send_loop L env retryStrategy webhook payload (attempt + 1) alertLog1 s2)
            else send_loop L env retryStrategy webhook payload (attempt + 1) alertLog1 s1)
      else
        ((alertLog\<lparr>al_FinalStatus := ''failed'', al_CompletedAt := clock s\<rparr>,
          Some (''webhook delivery failed after '' @ itoa (GetMaxAttempts retryStrategy)
                  @ '' attempts'')),
         s\<lparr>circuitBreaker := RecordFailure (circuitBreaker s) (clock s)\<rparr>))"
  by pat_completeness auto
termination
  by (relation "measure (\<lambda>(L, env, rs, webhook, payload, attempt, alertLog, s).
                   nat (GetMaxAttempts rs + 1 - attempt))") auto

declare send_loop.simps [simp del]

definition SendAlert ::
  "golib \<Rightarrow> env \<Rightarrow> sys \<Rightarrow> Webhook \<Rightarrow> AlertPayloadData \<Rightarrow> string \<Rightarrow> (AlertLog \<times> error) \<times> sys" where
  "SendAlert L env s webhook payload correlationID =
     (let payload1 = payload\<lparr>pd_Metadata :=
                        (pd_Metadata payload)(''timestamp'' \<mapsto> VString (FormatRFC3339 L (clock s)))\<rparr>;
          (newID, s1) = NewObjectID s;
          alertLog = \<lparr>al_ID = newID, al_ExecutionID = 0, al_CorrelationID = correlationID,
                      al_ConfigID = 0, al_WebhookURL = wh_URL webhook,
                      al_Payload = \<lparr>ap_Text = pd_Text payload1\<rparr>, al_Attempts = [],
                      al_FinalStatus = ''retrying'', al_AcknowledgmentStatus = '''',
                      al_AcknowledgedBy = '''', al_AcknowledgedAt = 0,
                      al_CreatedAt = clock s1, al_CompletedAt = 0\<rparr>;
          (can, cb) = CanAttempt (circuitBreaker s1) (clock s1);
          s2 = s1\<lparr>circuitBreaker := cb\<rparr>
      in if \<not> can
         then ((alertLog\<lparr>al_FinalStatus := ''failed'', al_CompletedAt := clock s2\<rparr>,
                Some ''circuit breaker is open''), s2)
         else send_loop L env (NewRetryStrategy (wh_RetryConfig webhook)) webhook payload1 1
                alertLog s2)"

section \<open>Repositories (package database)\<close>

text \<open>
  A database operation runs under the context that its caller hands it: it fails when
  that context is cancelled, and otherwise takes the next fault of the environment.
  \<open>InsertOne\<close> also fails on a duplicate key of a unique index: \<open>_id\<close> in every
  collection, \<open>correlation_id\<close> in the execution history.
\<close>

definition HealthCheckRepository_GetByID ::
  "env \<Rightarrow> sys \<Rightarrow> ObjectID \<Rightarrow> (string + HealthCheckConfig) \<times> sys" where
  "HealthCheckRepository_GetByID env s objID =
     (let s1 = s\<lparr>db_ops := Suc (db_ops s)\<rparr>
      in case db_error env s of
           Some e \<Rightarrow> (Inl (''failed to get health check: '' @ e), s1)
         | None \<Rightarrow>
             (case find (\<lambda>c. hc_ID c = objID) (health_check_configs s1) of
                None \<Rightarrow> (Inl ''health check not found'', s1)
              | Some cfg \<Rightarrow> (Inr cfg, s1)))"

definition ExecutionRepository_Create ::
  "env \<Rightarrow> sys \<Rightarrow> ExecutionHistory \<Rightarrow> (error \<times> ExecutionHistory) \<times> sys" where
  "ExecutionRepository_Create env s execution =
     (let (execution1, s1) =
            (if eh_ID execution = 0
             then (let (newID, s') = NewObjectID s in (execution\<lparr>eh_ID := newID\<rparr>, s'))
             else (execution, s));
          s2 = s1\<lparr>db_ops := Suc (db_ops s1)\<rparr>
      in case db_error env s1 of
           Some e \<Rightarrow> ((Some (''failed to create execution history: '' @ e), execution1), s2)
         | None \<Rightarrow>
             if \<exists>x \<in> set (execution_history s2).
                  eh_ID x = eh_ID execution1 \<or> eh_CorrelationID x = eh_CorrelationID execution1
             then ((Some ''failed to create execution history: E11000 duplicate key error'',
                    execution1), s2)
             else ((None, execution1),
                   s2\<lparr>execution_history := execution_history s2 @ [execution1]\<rparr>))"

definition AlertRepository_Create ::
  "env \<Rightarrow> sys \<Rightarrow> AlertLog \<Rightarrow> (error \<times> AlertLog) \<times> sys" where
  "AlertRepository_Create env s alert =
     (let (alert1, s1) =
            (if al_ID alert = 0
             then (let (newID, s') = NewObjectID s in (alert\<lparr>al_ID := newID\<rparr>, s'))
             else (alert, s));
          alert2 = (if al_AcknowledgmentStatus alert1 = ''''
                    then alert1\<lparr>al_AcknowledgmentStatus := ''open''\<rparr> else alert1);
          s2 = s1\<lparr>db_ops := Suc (db_ops s1)\<rparr>
      in case db_error env s1 of
           Some e \<Rightarrow> ((Some (''failed to create alert log: '' @ e), alert2), s2)
         | None \<Rightarrow>
             if \<exists>x \<in> set (alert_logs s2). al_ID x = al_ID alert2
             then ((Some ''failed to create alert log: E11000 duplicate key error'', alert2), s2)
             else ((None, alert2), s2\<lparr>alert_logs := alert_logs s2 @ [alert2]\<rparr>))"

section \<open>Alert payload (package webhook)\<close>

definition determineSeverity :: "RuleEvaluation \<Rightarrow> string" where
  "determineSeverity evaluation = (if ev_Error evaluation \<noteq> '''' then ''error'' else ''warning'')"

text \<open>The message starts with the four bytes of U+1F6A8 in UTF-8.\<close>

definition alert_prefix :: string where
  "alert_prefix = [CHR 0xF0, CHR 0x9F, CHR 0x9A, CHR 0xA8] @ '' Alert: ''"

definition FormatAlertPayload ::
  "golib \<Rightarrow> string \<Rightarrow> string \<Rightarrow> RuleEvaluation \<Rightarrow> string \<Rightarrow> int \<Rightarrow> string \<Rightarrow> int
     \<Rightarrow> AlertPayloadData" where
  "FormatAlertPayload L configName ruleName evaluation targetURL statusCode correlationID
       responseTimeMs =
     (let message =
            (if ev_Error evaluation \<noteq> ''''
             then alert_prefix @ configName @ '' - Rule evaluation error: '' @ ev_Error evaluation
             else alert_prefix @ configName @ '' - Rule '' @ quote @ ruleName @ quote
                    @ '' matched (extracted: '' @ Sprint L (ev_ExtractedValue evaluation)
                    @ '', operator: '' @ ev_Operator evaluation
                    @ '', expected: '' @ Sprint L (ev_ExpectedValue evaluation) @ '')'')
      in \<lparr>pd_Text = message,
          pd_Metadata =
            [''service'' \<mapsto> VString ''raven-alert'',
             ''config_name'' \<mapsto> VString configName,
             ''rule_name'' \<mapsto> VString ruleName,
             ''correlation_id'' \<mapsto> VString correlationID,
             ''timestamp'' \<mapsto> VString '''',
             ''severity'' \<mapsto> VString (determineSeverity evaluation)],
          pd_Details =
            [''target_url'' \<mapsto> VString targetURL,
             ''status_code'' \<mapsto> VInt statusCode,
             ''response_time_ms'' \<mapsto> VInt64 responseTimeMs,
             ''extracted_value'' \<mapsto> ev_ExtractedValue evaluation,
             ''expected_value'' \<mapsto> ev_ExpectedValue evaluation,
             ''operator'' \<mapsto> VString (ev_Operator evaluation),
             ''jsonpath_expression'' \<mapsto> VString (ev_Expression evaluation)]\<rparr>)"

section \<open>Execution engine (package service)\<close>

text \<open>
  setAuthentication changes the request only, which the environment receives; the model
  keeps its error.
\<close>

definition setAuthentication :: "golib \<Rightarrow> Auth \<Rightarrow> error" where
  "setAuthentication L auth =
     (let t = ToLower L (au_Type auth)
      in if t = ''basic'' then None
         else if t = ''bearer'' then None
         else if t = ''none'' \<or> t = '''' then None
         else Some (''unsupported auth type: '' @ au_Type auth))"

definition callTargetAPI ::
  "golib \<Rightarrow> env \<Rightarrow> sys \<Rightarrow> Target \<Rightarrow> (ExecutionRequest \<times> ExecutionResponse \<times> error) \<times> sys" where
  "callTargetAPI L env s target =
     (let execRequest = \<lparr>rq_URL = tg_URL target, rq_Method = tg_Method target,
                         rq_Headers = Map.empty, rq_Body = ''''\<rparr>;
          execResponse = \<lparr>rp_StatusCode = 0, rp_Headers = Map.empty, rp_Body = '''',
                          rp_Error = ''''\<rparr>;
          execRequest1 = (if tg_Body target \<noteq> '''' then execRequest\<lparr>rq_Body := tg_Body target\<rparr>
                          else execRequest)
      in case NewRequestErr L (tg_Method target) (tg_URL target) of
           Some e \<Rightarrow>
             ((execRequest1, execResponse\<lparr>rp_Error := ''Failed to create request: '' @ e\<rparr>,
               Some e), s)
         | None \<Rightarrow>
             (let execRequest2 = execRequest1\<lparr>rq_Headers := tg_Headers target\<rparr>
              in case setAuthentication L (tg_Auth target) of
                   Some e \<Rightarrow>
                     ((execRequest2,
                       execResponse\<lparr>rp_Error := ''Failed to set authentication: '' @ e\<rparr>,
                       Some e), s)
                 | None \<Rightarrow>
                     (case client_Do env s of
                        (DoError e, s1) \<Rightarrow>
                          ((execRequest2,
                            execResponse\<lparr>rp_Error := ''Request failed: '' @ e\<rparr>, Some e), s1)
                      | (DoResponse resp, s1) \<Rightarrow>
                             (case ReadAllLimit resp (1024 * 1024) of
                                (bodyBytes, Some e) \<Rightarrow>
                                  ((execRequest2,
                                    execResponse\<lparr>rp_Error := ''Failed to read response: '' @ e\<rparr>,
                                    Some e), s1)
                              | (bodyBytes, None) \<Rightarrow>
                                  ((execRequest2,
                                    execResponse\<lparr>
                                      rp_Headers := (\<lambda>key. case hr_Header resp key of
                                                       None \<Rightarrow> None
                                                     | Some [] \<Rightarrow> Some ''''
                                                     | Some (v # _) \<Rightarrow> Some v),
                                      rp_StatusCode := hr_StatusCode resp,
                                      rp_Body := bodyBytes\<rparr>,
                                    None), s1)))))"

text \<open>
  triggerAlert hands its context to SendAlert and then to \<open>alertRepo.Create\<close>: both read
  the one instant of cancellation of the environment, so that the insertion that follows
  a delivery that the cancellation has ended fails too. An error of the insertion is
  logged only.
\<close>

definition triggerAlert ::
  "golib \<Rightarrow> env \<Rightarrow> sys \<Rightarrow> HealthCheckConfig \<Rightarrow> RuleEvaluation \<Rightarrow> int \<Rightarrow> string \<Rightarrow> int
     \<Rightarrow> (ObjectID \<times> error) \<times> sys" where
  "triggerAlert L env s cfg ruleEval statusCode correlationID responseTimeMs =
     (let payload = FormatAlertPayload L (hc_Name cfg) (ev_RuleName ruleEval) ruleEval
                      (tg_URL (hc_Target cfg)) statusCode correlationID responseTimeMs;
          ((alertLog, err), s1) = SendAlert L env s (hc_Webhook cfg) payload correlationID;
          alertLog1 = alertLog\<lparr>al_ConfigID := hc_ID cfg\<rparr>;
          ((saveErr, alertLog2), s2) = AlertRepository_Create env s1 alertLog1
      in ((al_ID alertLog2, err), s2))"

text \<open>One iteration of the loop of Execute over the matched alerts.\<close>

definition trigger_one ::
  "golib \<Rightarrow> env \<Rightarrow> HealthCheckConfig \<Rightarrow> int \<Rightarrow> string \<Rightarrow> int
     \<Rightarrow> AlertTriggered list \<times> sys \<Rightarrow> RuleEvaluation \<Rightarrow> AlertTriggered list \<times> sys" where
  "trigger_one L env cfg statusCode correlationID responseTimeMs acc ruleEval =
     (let (alertsTriggered, s) = acc;
          ((alertID, alertErr), s1) =
             triggerAlert L env s cfg ruleEval statusCode correlationID responseTimeMs
      in if alertErr \<noteq> None then (alertsTriggered, s1)
         else (alertsTriggered @ [\<lparr>tr_AlertID = alertID,
                                   tr_TriggeredByRule = ev_RuleName ruleEval,
                                   tr_WebhookURL = wh_URL (hc_Webhook cfg)\<rparr>], s1))"

definition Execute ::
  "golib \<Rightarrow> env \<Rightarrow> sys \<Rightarrow> string \<Rightarrow> string \<Rightarrow> (string + ExecutionHistory) \<times> sys" where
  "Execute L env s configID correlationID =
     (let start = clock s
      in case ObjectIDFromHex L configID of
           Inl e \<Rightarrow> (Inl (''invalid config ID: '' @ e), s)
         | Inr objID \<Rightarrow>
             (case HealthCheckRepository_GetByID env s objID of
                (Inl e, s1) \<Rightarrow> (Inl (''failed to fetch config: '' @ e), s1)
              | (Inr cfg, s1) \<Rightarrow>
                  if \<not> hc_Enabled cfg then (Inl ''health check is disabled'', s1)
                  else
                    (let apiStart = clock s1;
                         ((request, response, err), s2) = callTargetAPI L env s1 (hc_Target cfg);
                         apiDuration = time_Sub (clock s2) apiStart;
                         (rulesEvaluation, alertsTriggered, s3) =
                            (if err = None \<and> rp_StatusCode response \<ge> 200
                                \<and> rp_StatusCode response < 300
                             then
                               (let evals = EvaluateRules L (hc_Rules cfg) (rp_Body response);
                                    matchedAlerts = GetMatchedRulesForAlert evals (hc_Rules cfg);
                                    (triggered, s') =
                                       foldl (trigger_one L env cfg (rp_StatusCode response)
                                                correlationID (Milliseconds apiDuration))
                                         ([], s2) matchedAlerts
                                in (evals, triggered, s'))
                             else ([], [], s2));
                         status =
                            (if err \<noteq> None then ''failed''
                             else if length rulesEvaluation > 0
                                     \<and> list_ex (\<lambda>eval. ev_Error eval \<noteq> '''') rulesEvaluation
                             then ''partial''
                             else ''success'');
                         execution =
                            \<lparr>eh_ID = 0, eh_CorrelationID = correlationID, eh_ConfigID = hc_ID cfg,
                             eh_ConfigName = hc_Name cfg, eh_ExecutedAt = clock s3,
                             eh_DurationMs = Milliseconds (time_Sub (clock s3) start),
                             eh_Request = request, eh_Response = response,
                             eh_RulesEvaluation = rulesEvaluation,
                             eh_AlertsTriggered = alertsTriggered, eh_Status = status\<rparr>;
                         ((createErr, execution1), s4) = ExecutionRepository_Create env s3 execution
                     in (Inr execution1, s4)))
     )"








section \<open>Lease repository (package database, model.ScheduleLock)\<close>





















text \<open>
  Several owners attempt to acquire the lease of one configuration, one after the other
  in the store. Each attempt \<open>(now, podID, ttl, fault)\<close> has the reading \<open>now\<close> of the clock
  that its own call of AcquireLock makes. The attempts contend for one lease when none of
  them is made after the expiry that an earlier one asks for.
\<close>

type_synonym attempt = "time \<times> string \<times> duration \<times> error"





section \<open>A small instance of the library, to run the model on examples\<close>

text \<open>
  \<open>lib0\<close> gives each library function a simple meaning that agrees with the real one on
  the inputs of the examples below: ASCII letters and blanks, decimal numerals, the
  printing of strings, booleans and integers, literal patterns, JSONPaths \<open>$.key\<close> and
  two JSON documents. The general theorems hold for every library \<open>L\<close>; \<open>lib0\<close> only
  serves to evaluate the model on concrete inputs.
\<close>

definition ascii_lower :: "char \<Rightarrow> char" where
  "ascii_lower c =
     (let n = (of_char c :: nat) in if 65 \<le> n \<and> n \<le> 90 then char_of (n + 32) else c)"

definition is_blank :: "char \<Rightarrow> bool" where
  "is_blank c \<longleftrightarrow> c = CHR '' '' \<or> c = CHR 0x09 \<or> c = CHR 0x0A \<or> c = CHR 0x0D"

definition trim_blanks :: "string \<Rightarrow> string" where
  "trim_blanks s = rev (dropWhile is_blank (rev (dropWhile is_blank s)))"

fun parse_digits :: "nat \<Rightarrow> string \<Rightarrow> nat option" where
  "parse_digits acc [] = Some acc"
| "parse_digits acc (c # cs) =
     (let n = (of_char c :: nat)
      in if 48 \<le> n \<and> n \<le> 57 then parse_digits (10 * acc + (n - 48)) cs else None)"

definition parse_decimal :: "string \<Rightarrow> nat option" where
  "parse_decimal s = (if s = [] then None else parse_digits 0 s)"

fun sprint0 :: "val \<Rightarrow> string" where
  "sprint0 VNil = ''<nil>''"
| "sprint0 (VBool b) = (if b then ''true'' else ''false'')"
| "sprint0 (VString s) = s"
| "sprint0 (VInt i) = itoa i"
| "sprint0 (VInt32 i) = itoa i"
| "sprint0 (VInt64 i) = itoa i"
| "sprint0 v = ''?''"

definition lookup0 :: "string \<Rightarrow> val \<Rightarrow> string + val" where
  "lookup0 expression v =
     (case v of
        VMap kvs \<Rightarrow>
          (case map_of kvs (drop 2 expression) of
             None \<Rightarrow> Inl (''key error: '' @ drop 2 expression @ '' not found in object'')
           | Some x \<Rightarrow> Inr x)
      | _ \<Rightarrow> Inl ''object is not a map'')"

definition unmarshal0 :: "string \<Rightarrow> string + val" where
  "unmarshal0 body =
     (if body = ''{\"status\":\"down\"}'' then Inr (VMap [(''status'', VString ''down'')])
      else if body = ''{\"status\":null}'' then Inr (VMap [(''status'', VNil)])
      else Inl ''invalid character'')"

definition lib0 :: golib where
  "lib0 =
     \<lparr>ToLower = map ascii_lower,
      TrimSpace = trim_blanks,
      Sprint = sprint0,
      ParseFloat = (\<lambda>s. map_option (\<lambda>n. Float (real n)) (parse_decimal s)),
      Float64OfInt = (\<lambda>i. Float (real_of_int i)),
      RegexpCompile = (\<lambda>p. if p = ''('' then Some ''missing closing )'' else None),
      MatchString = (\<lambda>p s. str_contains s p),
      JsonUnmarshal = unmarshal0,
      JsonMarshalText = (\<lambda>t. Inr (''{\"text\":\"'' @ t @ ''\"}'')),
      JsonpathCompile = (\<lambda>e. if has_prefix e ''$.'' then None
                             else Some ''should start with $''),
      JsonpathLookup = lookup0,
      NewRequestErr = (\<lambda>m u. None),
      FormatRFC3339 = itoa,
      ObjectIDFromHex = (\<lambda>s. case parse_decimal s of
                                None \<Rightarrow> Inl ''the provided hex string is not a valid ObjectID''
                              | Some n \<Rightarrow> Inr n)\<rparr>"

text \<open>A rule of the examples.\<close>

definition rule0 :: Rule where
  "rule0 = \<lparr>ru_Name = ''status-down'', ru_Description = '''', ru_Expression = ''$.status'',
            ru_Operator = ''eq'', ru_ExpectedValue = VString ''down'', ru_AlertOnMatch = True\<rparr>"

text \<open>
  The inputs of the examples: a webhook sink that answers 404 to every request and a
  context that is never cancelled; a webhook with the zero retry configuration; a process
  that has just started; and one whose circuit breaker has been open for 30 seconds.
\<close>

definition resp404 :: http_response where
  "resp404 = \<lparr>hr_StatusCode = 404, hr_Header = Map.empty, hr_Body = ''not found'',
              hr_ReadErr = None\<rparr>"

definition sink404 :: "env \<Rightarrow> nat \<Rightarrow> bool" where
  "sink404 env n \<longleftrightarrow>
     (\<forall>k. (n \<le> k \<longrightarrow> http_do env k = DoResponse resp404)
          \<and> http_elapsed env k = 5 * Millisecond)
     \<and> ctx_cancelled_at env = None"

definition env404 :: env where
  "env404 = \<lparr>http_do = (\<lambda>k. DoResponse resp404),
             http_elapsed = (\<lambda>k. 5 * Millisecond),
             http_aborted = (\<lambda>k. ''context canceled''),
             ctx_cancelled_at = None,
             ctx_Err = ''context canceled'',
             select_ctx = (\<lambda>k. False),
             db_fault = (\<lambda>k. None),
             db_aborted = (\<lambda>k. ''context canceled'')\<rparr>"

definition webhook0 :: Webhook where
  "webhook0 = \<lparr>wh_URL = ''https://hooks.example/alert'', wh_Method = ''POST'',
               wh_Headers = Map.empty,
               wh_RetryConfig = \<lparr>MaxAttempts = 0, InitialDelayMs = 0, MaxDelayMs = 0, Multiplier = 0\<rparr>\<rparr>"

definition payload0 :: AlertPayloadData where
  "payload0 = \<lparr>pd_Text = ''down'', pd_Metadata = Map.empty, pd_Details = Map.empty\<rparr>"

definition sys0 :: sys where
  "sys0 = \<lparr>clock = 0, http_calls = 0, db_ops = 0, ids_issued = 0,
           circuitBreaker = NewCircuitBreaker 0, health_check_configs = [],
           execution_history = [], alert_logs = []\<rparr>"

definition sys_open :: sys where
  "sys_open = sys0\<lparr>clock := 30 * Second,
                      circuitBreaker := (NewCircuitBreaker 0)\<lparr>state := StateOpen, failureCount := 5\<rparr>\<rparr>"

text \<open>
  A configuration with the rule above, stored in a process that has just started, and a
  target that answers 200 with a matching body while the webhook sink answers 404.
\<close>

definition target0 :: Target where
  "target0 = \<lparr>tg_URL = ''https://api.example/health'', tg_Method = ''GET'',
              tg_Headers = Map.empty, tg_Body = '''',
              tg_Auth = \<lparr>au_Type = ''none'', au_Username = '''', au_Password = '''', au_Token = ''''\<rparr>,
              tg_Timeout = 30\<rparr>"

definition cfg0 :: HealthCheckConfig where
  "cfg0 = \<lparr>hc_ID = 1, hc_Name = ''api'', hc_Description = '''', hc_Enabled = True,
           hc_Target = target0, hc_Rules = [rule0], hc_Webhook = webhook0,
           hc_Schedule = '''', hc_ScheduleEnabled = False, hc_LastScheduledRun = 0,
           hc_NextScheduledRun = 0\<rparr>"

definition sys1 :: sys where
  "sys1 = sys0\<lparr>health_check_configs := [cfg0]\<rparr>"













section \<open>Properties of the circuit breaker and of the retry strategy\<close>

lemma wrap64_id: "minInt64 \<le> x \<Longrightarrow> x \<le> maxInt64 \<Longrightarrow> wrap64 x = x"
  unfolding wrap64_def minInt64_def maxInt64_def
  by (rule signed_take_bit_int_eq_self) auto

lemma streak_snoc_failure: "streak (xs @ [CallRecordFailure t]) = Suc (streak xs)"
  by (simp add: streak_def)

lemma streak_snoc_success: "streak (xs @ [CallRecordSuccess t]) = 0"
  by (simp add: streak_def)

lemma streak_suffix:
  "n \<le> streak xs \<longleftrightarrow> (\<exists>pre mid. xs = pre @ mid \<and> length mid = n \<and> list_all is_failure mid)"
proof
  assume h: "n \<le> streak xs"
  let ?tw = "takeWhile is_failure (rev xs)"
  have "rev xs = ?tw @ dropWhile is_failure (rev xs)" by simp
  then have xs: "xs = rev (dropWhile is_failure (rev xs)) @ rev ?tw"
    by (metis rev_append rev_rev_ident)
  let ?m = "rev (take n ?tw)"
  let ?p = "rev (dropWhile is_failure (rev xs)) @ rev (drop n ?tw)"
  have "rev ?tw = rev (drop n ?tw) @ rev (take n ?tw)"
    by (metis append_take_drop_id rev_append)
  with xs have "xs = ?p @ ?m" by simp
  moreover have "length ?m = n" using h by (simp add: streak_def)
  moreover have "list_all is_failure ?m"
    by (metis list_all_iff set_takeWhileD in_set_takeD set_rev)
  ultimately show "\<exists>pre mid. xs = pre @ mid \<and> length mid = n \<and> list_all is_failure mid"
    by blast
next
  assume "\<exists>pre mid. xs = pre @ mid \<and> length mid = n \<and> list_all is_failure mid"
  then obtain pre mid where xs: "xs = pre @ mid" and l: "length mid = n"
    and a: "list_all is_failure mid" by blast
  have "takeWhile is_failure (rev mid @ rev pre) = rev mid @ takeWhile is_failure (rev pre)"
    using a by (intro takeWhile_append2) (simp add: list_all_iff)
  then show "n \<le> streak xs" using xs l by (simp add: streak_def)
qed

lemma has_failure_run_snoc:
  "has_failure_run n (xs @ [c]) \<longleftrightarrow> has_failure_run n xs \<or> n \<le> streak (xs @ [c])"
proof
  assume "has_failure_run n (xs @ [c])"
  then obtain pre mid post where e: "xs @ [c] = pre @ mid @ post" and l: "length mid = n"
    and a: "list_all is_failure mid" unfolding has_failure_run_def by blast
  show "has_failure_run n xs \<or> n \<le> streak (xs @ [c])"
  proof (cases post rule: rev_cases)
    case Nil
    with e l a show ?thesis using streak_suffix by auto
  next
    case (snoc ys y)
    with e have "xs = pre @ mid @ ys" by simp
    with l a show ?thesis unfolding has_failure_run_def by blast
  qed
next
  assume "has_failure_run n xs \<or> n \<le> streak (xs @ [c])"
  then show "has_failure_run n (xs @ [c])"
  proof
    assume "has_failure_run n xs"
    then obtain pre mid post where "xs = pre @ mid @ post" "length mid = n" "list_all is_failure mid"
      unfolding has_failure_run_def by blast
    then have "xs @ [c] = pre @ mid @ (post @ [c])" by simp
    then show ?thesis unfolding has_failure_run_def
      using \<open>length mid = n\<close> \<open>list_all is_failure mid\<close> by blast
  next
    assume "n \<le> streak (xs @ [c])"
    then obtain pre mid where "xs @ [c] = pre @ mid @ []" "length mid = n" "list_all is_failure mid"
      using streak_suffix by auto
    then show ?thesis unfolding has_failure_run_def by blast
  qed
qed

lemma has_failure_run_Nil: "\<not> has_failure_run 5 []"
  by (simp add: has_failure_run_def)

lemma cb_inv_init: "cb_inv [] (NewCircuitBreaker t0)"
  by (simp add: cb_inv_def NewCircuitBreaker_def has_failure_run_Nil streak_def)

lemma cb_inv_step: "cb_inv calls cb \<Longrightarrow> cb_inv (calls @ [c]) (cb_step cb c)"
proof (cases c)
  case (CallRecordSuccess t)
  assume "cb_inv calls cb"
  then show ?thesis using CallRecordSuccess
    by (auto simp: cb_inv_def has_failure_run_snoc streak_snoc_success RecordSuccess_def Let_def
        split: if_splits)
next
  case (CallRecordFailure t)
  assume i: "cb_inv calls cb"
  show ?thesis
  proof (cases "has_failure_run 5 calls")
    case True
    with i show ?thesis using CallRecordFailure
      by (simp add: cb_inv_def has_failure_run_snoc RecordFailure_def Let_def)
  next
    case False
    with i have s: "state cb = StateClosed" "failureCount cb = int (streak calls)" "streak calls < 5"
      "failureThreshold cb = 5"
      by (simp_all add: cb_inv_def)
    have w: "wrap64 (int (streak calls) + 1) = int (streak calls) + 1"
      using s(3) by (intro wrap64_id) (simp_all add: minInt64_def maxInt64_def)
    show ?thesis using False s w CallRecordFailure
      by (auto simp: cb_inv_def has_failure_run_snoc streak_snoc_failure RecordFailure_def Let_def)
  qed
qed

lemma cb_inv_run: "cb_inv calls (cb_run (NewCircuitBreaker t0) calls)"
proof (induction calls rule: rev_induct)
  case Nil
  show ?case by (simp add: cb_run_def cb_inv_init)
next
  case (snoc c calls)
  then show ?case using cb_inv_step [of calls _ c] by (simp add: cb_run_def)
qed

text \<open>
  Claim C3. A breaker created Closed that has only seen calls of RecordSuccess and
  RecordFailure is Open exactly when its history contains failureThreshold = 5
  consecutive calls of RecordFailure with no RecordSuccess between them; and a RecordSuccess
  on a Closed breaker resets the failure counter to zero and leaves it Closed.
\<close>

theorem circuit_opens_iff_failure_streak:
  "(GetState (cb_run (NewCircuitBreaker t0) calls) = StateOpen \<longleftrightarrow> has_failure_run 5 calls)
   \<and> failureThreshold (NewCircuitBreaker t0) = 5
   \<and> (state cb = StateClosed \<longrightarrow>
        failureCount (RecordSuccess cb now) = 0 \<and> state (RecordSuccess cb now) = StateClosed)"
proof -
  have "cb_inv calls (cb_run (NewCircuitBreaker t0) calls)" by (rule cb_inv_run)
  then have "GetState (cb_run (NewCircuitBreaker t0) calls) = StateOpen \<longleftrightarrow> has_failure_run 5 calls"
    by (auto simp: cb_inv_def GetState_def split: if_splits)
  moreover have "failureThreshold (NewCircuitBreaker t0) = 5"
    by (simp add: NewCircuitBreaker_def)
  moreover have "state cb = StateClosed \<longrightarrow>
        failureCount (RecordSuccess cb now) = 0 \<and> state (RecordSuccess cb now) = StateClosed"
    by (simp add: RecordSuccess_def)
  ultimately show ?thesis by blast
qed

theorem circuit_opens_iff_failure_streak_witness:
  "GetState (cb_run (NewCircuitBreaker 0)
      [CallRecordFailure 1, CallRecordSuccess 2, CallRecordFailure 3, CallRecordFailure 4,
       CallRecordFailure 5, CallRecordFailure 6, CallRecordFailure 7]) = StateOpen
   \<and> GetState (cb_run (NewCircuitBreaker 0)
      [CallRecordFailure 1, CallRecordFailure 2, CallRecordFailure 3, CallRecordFailure 4,
       CallRecordSuccess 5, CallRecordFailure 6]) = StateClosed
   \<and> state (NewCircuitBreaker 0) = StateClosed
   \<and> failureCount (RecordSuccess (NewCircuitBreaker 0) 1) = 0"
proof -
  let ?cs = "[CallRecordFailure 1, CallRecordSuccess 2, CallRecordFailure 3, CallRecordFailure 4,
       CallRecordFailure 5, CallRecordFailure 6, CallRecordFailure 7]"
  have "?cs = [CallRecordFailure 1, CallRecordSuccess 2] @ [CallRecordFailure 3, CallRecordFailure 4,
       CallRecordFailure 5, CallRecordFailure 6, CallRecordFailure 7] @ []
     \<and> length [CallRecordFailure 3, CallRecordFailure 4,
       CallRecordFailure 5, CallRecordFailure 6, CallRecordFailure 7] = (5::nat)
     \<and> list_all is_failure [CallRecordFailure 3, CallRecordFailure 4,
       CallRecordFailure 5, CallRecordFailure 6, CallRecordFailure 7]" by simp
  then have r: "has_failure_run 5 ?cs" unfolding has_failure_run_def by blast
  have c: "state (NewCircuitBreaker 0) = StateClosed" by (simp add: NewCircuitBreaker_def)
  have 2: "GetState (cb_run (NewCircuitBreaker 0)
      [CallRecordFailure 1, CallRecordFailure 2, CallRecordFailure 3, CallRecordFailure 4,
       CallRecordSuccess 5, CallRecordFailure 6]) = StateClosed"
    by (simp add: GetState_def cb_run_def NewCircuitBreaker_def RecordFailure_def RecordSuccess_def
        wrap64_def Let_def)
  show ?thesis
    using circuit_opens_iff_failure_streak [of 0 ?cs "NewCircuitBreaker 0" 1] r c 2 by blast
qed

text \<open>
  Claim C4. The truth table of ShouldRetry, read in the order of the source: false when
  the attempt number has reached maxAttempts; otherwise true on an error, true on 5xx,
  true on 429, false on another 4xx, true on any other status from 300 on, false on 2xx.
  In particular ShouldRetry(n, 2xx, nil) and ShouldRetry(maxAttempts, _, _) are false.
\<close>

theorem ShouldRetry_truth_table:
  "(attempt \<ge> MaxAttempts (config rs) \<longrightarrow> ShouldRetry rs attempt statusCode err = False)
   \<and> (attempt < MaxAttempts (config rs) \<longrightarrow>
        (err \<noteq> None \<longrightarrow> ShouldRetry rs attempt statusCode err = True)
      \<and> (err = None \<and> 500 \<le> statusCode \<and> statusCode < 600 \<longrightarrow>
           ShouldRetry rs attempt statusCode err = True)
      \<and> (err = None \<and> statusCode = 429 \<longrightarrow> ShouldRetry rs attempt statusCode err = True)
      \<and> (err = None \<and> 400 \<le> statusCode \<and> statusCode < 500 \<and> statusCode \<noteq> 429 \<longrightarrow>
           ShouldRetry rs attempt statusCode err = False)
      \<and> (err = None \<and> 300 \<le> statusCode \<and> \<not> (400 \<le> statusCode \<and> statusCode < 500) \<longrightarrow>
           ShouldRetry rs attempt statusCode err = True)
      \<and> (err = None \<and> 200 \<le> statusCode \<and> statusCode < 300 \<longrightarrow>
           ShouldRetry rs attempt statusCode err = False))
   \<and> (200 \<le> statusCode \<and> statusCode < 300 \<longrightarrow> ShouldRetry rs n statusCode None = False)
   \<and> ShouldRetry rs (MaxAttempts (config rs)) statusCode err = False"
  by (simp add: ShouldRetry_def)

theorem ShouldRetry_truth_table_witness:
  "ShouldRetry (NewRetryStrategy \<lparr>MaxAttempts = 0, InitialDelayMs = 0, MaxDelayMs = 0, Multiplier = 0\<rparr>)
      1 404 None = False
   \<and> ShouldRetry (NewRetryStrategy \<lparr>MaxAttempts = 0, InitialDelayMs = 0, MaxDelayMs = 0, Multiplier = 0\<rparr>)
      3 404 None = False
   \<and> 1 < MaxAttempts (config (NewRetryStrategy \<lparr>MaxAttempts = 0, InitialDelayMs = 0, MaxDelayMs = 0, Multiplier = 0\<rparr>))"
proof -
  let ?rs = "NewRetryStrategy \<lparr>MaxAttempts = 0, InitialDelayMs = 0, MaxDelayMs = 0, Multiplier = 0\<rparr>"
  have m: "MaxAttempts (config ?rs) = 3" by (simp add: NewRetryStrategy_def SetDefaults_def)
  show ?thesis
    using ShouldRetry_truth_table [of ?rs 1 404 None 1] ShouldRetry_truth_table [of ?rs 3 404 None 1] m
    by simp
qed

lemma float_to_int64_of_int:
  "minInt64 \<le> k \<Longrightarrow> k \<le> maxInt64 \<Longrightarrow> float_to_int64 (real_of_int k) = k"
  by (simp add: float_to_int64_def)

lemma default_delay:
  assumes "InitialDelayMs rc = 0 \<or> InitialDelayMs rc = 1000"
    and "MaxDelayMs rc = 0 \<or> MaxDelayMs rc = 30000"
    and "Multiplier rc = 0 \<or> Multiplier rc = 2"
    and "1 \<le> n"
  shows "CalculateDelay (NewRetryStrategy rc) n = min (1000 * 2 ^ nat (n - 1)) 30000 * Millisecond"
proof -
  let ?k = "nat (n - 1)"
  let ?d = "min (1000 * 2 ^ ?k) (30000::int)"
  have cfg: "InitialDelayMs (config (NewRetryStrategy rc)) = 1000"
    "MaxDelayMs (config (NewRetryStrategy rc)) = 30000"
    "Multiplier (config (NewRetryStrategy rc)) = 2"
    using assms by (auto simp: NewRetryStrategy_def SetDefaults_def Let_def)
  have r: "real_of_int (1000 * 2 ^ ?k) = 1000 * 2 ^ ?k" by simp
  have capped: "(if (1000::real) * 2 ^ ?k > 30000 then 30000 else 1000 * 2 ^ ?k) = real_of_int ?d"
  proof (cases "(1000::int) * 2 ^ ?k > 30000")
    case True
    then have d: "?d = 30000" by linarith
    have "real_of_int 30000 < real_of_int (1000 * 2 ^ ?k)"
      using True by (simp only: of_int_less_iff)
    then have "(1000::real) * 2 ^ ?k > 30000" by simp
    then show ?thesis by (simp only: d if_True)
  next
    case False
    then have d: "?d = 1000 * 2 ^ ?k" by linarith
    have "\<not> real_of_int 30000 < real_of_int (1000 * 2 ^ ?k)"
      using False by (simp only: of_int_less_iff not_False_eq_True)
    then have "\<not> (1000::real) * 2 ^ ?k > 30000" by simp
    then show ?thesis by (simp only: d if_False) simp
  qed
  have lo: "minInt64 \<le> ?d"
    unfolding minInt64_def by (rule order_trans [where y = 0]) simp_all
  have hi: "?d \<le> maxInt64"
    unfolding maxInt64_def by (rule order_trans [where y = 30000]) simp_all
  have f: "float_to_int64 (real_of_int ?d) = ?d"
    using lo hi by (rule float_to_int64_of_int)
  have "0 \<le> ?d * Millisecond" by (simp add: Millisecond_def)
  then have lo': "minInt64 \<le> ?d * Millisecond"
    unfolding minInt64_def by (rule order_trans [rotated]) simp
  have "?d * Millisecond \<le> 30000 * Millisecond"
    by (intro mult_right_mono) (simp_all add: Millisecond_def)
  then have hi': "?d * Millisecond \<le> maxInt64"
    unfolding maxInt64_def by (rule order_trans) (simp add: Millisecond_def)
  have w: "wrap64 (?d * Millisecond) = ?d * Millisecond"
    using lo' hi' by (rule wrap64_id)
  show ?thesis
    using assms(4) unfolding CalculateDelay_def Let_def cfg
    by (simp only: capped f w of_int_numeral) simp
qed

text \<open>
  Claim C9. When each delay field of the configuration is zero or already its default,
  SetDefaults makes the parameters 1000 ms, 30000 ms and 2.0, and then CalculateDelay is
  monotone from attempt 1 on, never exceeds maxDelayMs milliseconds, and is 0 for
  attempt 0.
\<close>

theorem backoff_monotone_default:
  assumes "InitialDelayMs rc = 0 \<or> InitialDelayMs rc = 1000"
    and "MaxDelayMs rc = 0 \<or> MaxDelayMs rc = 30000"
    and "Multiplier rc = 0 \<or> Multiplier rc = 2"
  shows "(\<forall>n\<ge>1. CalculateDelay (NewRetryStrategy rc) (n + 1) \<ge> CalculateDelay (NewRetryStrategy rc) n)
    \<and> (\<forall>n. CalculateDelay (NewRetryStrategy rc) n
            \<le> MaxDelayMs (config (NewRetryStrategy rc)) * Millisecond)
    \<and> CalculateDelay (NewRetryStrategy rc) 0 = 0
    \<and> InitialDelayMs (config (NewRetryStrategy rc)) = 1000
    \<and> MaxDelayMs (config (NewRetryStrategy rc)) = 30000
    \<and> Multiplier (config (NewRetryStrategy rc)) = 2"
proof -
  let ?rs = "NewRetryStrategy rc"
  have cfg: "InitialDelayMs (config ?rs) = 1000" "MaxDelayMs (config ?rs) = 30000"
    "Multiplier (config ?rs) = 2"
    using assms by (auto simp: NewRetryStrategy_def SetDefaults_def Let_def)
  have mono: "CalculateDelay ?rs n \<le> CalculateDelay ?rs (n + 1)" if "1 \<le> n" for n
  proof -
    have "nat (n + 1 - 1) = Suc (nat (n - 1))" using that by simp
    then have "(1000::int) * 2 ^ nat (n - 1) \<le> 1000 * 2 ^ nat (n + 1 - 1)" by simp
    then have "min (1000 * 2 ^ nat (n - 1)) (30000::int) \<le> min (1000 * 2 ^ nat (n + 1 - 1)) 30000"
      by (rule min.mono) simp
    then have "min (1000 * 2 ^ nat (n - 1)) (30000::int) * Millisecond
        \<le> min (1000 * 2 ^ nat (n + 1 - 1)) 30000 * Millisecond"
      by (intro mult_right_mono) (simp_all add: Millisecond_def)
    then show ?thesis
      using that default_delay [OF assms, of n] default_delay [OF assms, of "n + 1"]
      by simp
  qed
  have bound: "CalculateDelay ?rs n \<le> MaxDelayMs (config ?rs) * Millisecond" for n
  proof (cases "1 \<le> n")
    case True
    then show ?thesis using default_delay [OF assms, of n] cfg by (simp add: Millisecond_def)
  next
    case False
    then show ?thesis using cfg by (simp add: CalculateDelay_def Millisecond_def)
  qed
  have zero: "CalculateDelay ?rs 0 = 0" by (simp add: CalculateDelay_def)
  show ?thesis using mono bound zero cfg by simp
qed

theorem backoff_monotone_default_witness:
  "CalculateDelay (NewRetryStrategy \<lparr>MaxAttempts = 0, InitialDelayMs = 0, MaxDelayMs = 0, Multiplier = 0\<rparr>) (5 + 1)
     \<ge> CalculateDelay (NewRetryStrategy \<lparr>MaxAttempts = 0, InitialDelayMs = 0, MaxDelayMs = 0, Multiplier = 0\<rparr>) 5
   \<and> CalculateDelay (NewRetryStrategy \<lparr>MaxAttempts = 0, InitialDelayMs = 0, MaxDelayMs = 0, Multiplier = 0\<rparr>) 5
       = 16000 * Millisecond
   \<and> CalculateDelay (NewRetryStrategy \<lparr>MaxAttempts = 0, InitialDelayMs = 0, MaxDelayMs = 0, Multiplier = 0\<rparr>) 6
       = 30000 * Millisecond"
proof -
  let ?rc = "\<lparr>MaxAttempts = 0, InitialDelayMs = 0, MaxDelayMs = 0, Multiplier = 0::real\<rparr>"
  have a: "InitialDelayMs ?rc = 0 \<or> InitialDelayMs ?rc = 1000"
    "MaxDelayMs ?rc = 0 \<or> MaxDelayMs ?rc = 30000" "Multiplier ?rc = 0 \<or> Multiplier ?rc = 2"
    by simp_all
  have 5: "CalculateDelay (NewRetryStrategy ?rc) 5 = 16000 * Millisecond"
    using default_delay [OF a, of 5] by (simp add: eval_nat_numeral)
  have 6: "CalculateDelay (NewRetryStrategy ?rc) 6 = 30000 * Millisecond"
    using default_delay [OF a, of 6] by (simp add: eval_nat_numeral)
  have "CalculateDelay (NewRetryStrategy ?rc) (5 + 1) \<ge> CalculateDelay (NewRetryStrategy ?rc) 5"
    using backoff_monotone_default [OF a] by (elim conjE allE [of _ 5]) simp
  then show ?thesis using 5 6 by simp
qed

section \<open>Properties of the lease repository\<close>






























section \<open>Properties of the evaluator\<close>

lemma lib0_ToLower_simps:
  "ToLower lib0 ''eq'' = ''eq''" "ToLower lib0 ''gt'' = ''gt''" "ToLower lib0 ''exists'' = ''exists''"
  "ToLower lib0 ''contains'' = ''contains''"
  by (simp_all add: lib0_def ascii_lower_def)

lemma CoerceToNumber_VNil: "CoerceToNumber L VNil = Inl (''cannot convert <nil> to number'')"
  by simp

text \<open>
  Claim C5, as stated, fails: \<open>eq\<close> applied to a null extracted value returns a verdict
  with no error.
\<close>

theorem null_extraction_eq_no_error:
  "EvaluateOperator lib0 ''eq'' VNil (VString ''down'') = (False, None)"
  by (simp add: EvaluateOperator_def lib0_ToLower_simps evaluateEquals_def AreEqual_def)

text \<open>
  Claim C5, amended. For a null extracted value: \<open>exists\<close> returns matched = false with no
  error; \<open>gt\<close>, \<open>lt\<close>, \<open>gte\<close> and \<open>lte\<close> yield an error; \<open>eq\<close> and \<open>ne\<close> yield no error
  (\<open>eq\<close> matches exactly when the expected value is null as well); \<open>contains\<close> yields no
  error; \<open>regex\<close> yields an error exactly when the expected pattern does not compile.
\<close>

theorem null_extraction_by_operator:
  "(ToLower L operator = ''exists'' \<longrightarrow>
      EvaluateOperator L operator VNil expected = (False, None))
   \<and> (ToLower L operator \<in> {''gt'', ''lt'', ''gte'', ''lte''} \<longrightarrow>
        fst (EvaluateOperator L operator VNil expected) = False
        \<and> snd (EvaluateOperator L operator VNil expected) \<noteq> None)
   \<and> (ToLower L operator = ''eq'' \<longrightarrow>
        EvaluateOperator L operator VNil expected = (expected = VNil, None))
   \<and> (ToLower L operator = ''ne'' \<longrightarrow>
        EvaluateOperator L operator VNil expected = (expected \<noteq> VNil, None))
   \<and> (ToLower L operator = ''contains'' \<longrightarrow>
        snd (EvaluateOperator L operator VNil expected) = None)
   \<and> (ToLower L operator = ''regex'' \<longrightarrow>
        (snd (EvaluateOperator L operator VNil expected) = None
           \<longleftrightarrow> RegexpCompile L (CoerceToString L expected) = None))"
proof -
  have ex: "ToLower L operator = ''exists'' \<longrightarrow>
      EvaluateOperator L operator VNil expected = (False, None)"
    by (simp add: EvaluateOperator_def evaluateExists_def)
  have ord: "ToLower L operator \<in> {''gt'', ''lt'', ''gte'', ''lte''} \<longrightarrow>
        fst (EvaluateOperator L operator VNil expected) = False
        \<and> snd (EvaluateOperator L operator VNil expected) \<noteq> None"
    by (auto simp: EvaluateOperator_def evaluateGreaterThan_def evaluateLessThan_def
        evaluateGreaterThanOrEqual_def evaluateLessThanOrEqual_def CompareNumbers_def)
  have eq: "ToLower L operator = ''eq'' \<longrightarrow>
        EvaluateOperator L operator VNil expected = (expected = VNil, None)"
    by (auto simp: EvaluateOperator_def evaluateEquals_def AreEqual_def)
  have ne: "ToLower L operator = ''ne'' \<longrightarrow>
        EvaluateOperator L operator VNil expected = (expected \<noteq> VNil, None)"
    by (auto simp: EvaluateOperator_def evaluateEquals_def AreEqual_def)
  have co: "ToLower L operator = ''contains'' \<longrightarrow>
        snd (EvaluateOperator L operator VNil expected) = None"
    by (simp add: EvaluateOperator_def evaluateContains_def)
  have re: "ToLower L operator = ''regex'' \<longrightarrow>
        (snd (EvaluateOperator L operator VNil expected) = None
           \<longleftrightarrow> RegexpCompile L (CoerceToString L expected) = None)"
    by (auto simp: EvaluateOperator_def evaluateRegex_def Let_def split: option.splits)
  from ex ord eq ne co re show ?thesis by blast
qed

theorem null_extraction_by_operator_witness:
  "EvaluateOperator lib0 ''exists'' VNil (VString ''1'') = (False, None)
   \<and> snd (EvaluateOperator lib0 ''gt'' VNil (VString ''1'')) \<noteq> None
   \<and> snd (EvaluateOperator lib0 ''contains'' VNil (VString ''1'')) = None
   \<and> ToLower lib0 ''gt'' = ''gt''"
  using null_extraction_by_operator [of lib0 "''exists''" "VString ''1''"]
    null_extraction_by_operator [of lib0 "''gt''" "VString ''1''"]
    null_extraction_by_operator [of lib0 "''contains''" "VString ''1''"]
  by (simp add: lib0_ToLower_simps)

text \<open>
  Claim C8. For every rule and every response body, a verdict of EvaluateRule that has
  matched = true has an empty error.
\<close>

theorem verdict_soundness:
  "ev_Matched (EvaluateRule L rule responseBody) \<longrightarrow> ev_Error (EvaluateRule L rule responseBody) = ''''"
  by (simp add: EvaluateRule_def Let_def split: sum.splits option.splits prod.splits)

lemma lib0_sel:
  "ToLower lib0 = map ascii_lower" "TrimSpace lib0 = trim_blanks" "Sprint lib0 = sprint0"
  "ParseFloat lib0 = (\<lambda>s. map_option (\<lambda>n. Float (real n)) (parse_decimal s))"
  "JsonUnmarshal lib0 = unmarshal0"
  "JsonMarshalText lib0 = (\<lambda>t. Inr (''{\"text\":\"'' @ t @ ''\"}''))"
  "JsonpathCompile lib0 = (\<lambda>e. if has_prefix e ''$.'' then None else Some ''should start with $'')"
  "JsonpathLookup lib0 = lookup0"
  "NewRequestErr lib0 = (\<lambda>m u. None)"
  "FormatRFC3339 lib0 = itoa"
  "ObjectIDFromHex lib0 = (\<lambda>s. case parse_decimal s of
                                None \<Rightarrow> Inl ''the provided hex string is not a valid ObjectID''
                              | Some n \<Rightarrow> Inr n)"
  by (simp_all add: lib0_def)

lemma extractValue_status:
  "extractValue lib0 (VMap [(''status'', VString ''down'')]) ''$.status'' = Inr (VString ''down'')"
  by (simp add: extractValue_def lib0_sel lookup0_def)

lemma EvaluateOperator_eq_down:
  "EvaluateOperator lib0 ''eq'' (VString ''down'') (VString ''down'') = (True, None)"
  by (simp add: EvaluateOperator_def lib0_ToLower_simps evaluateEquals_def AreEqual_def
      lib0_sel ascii_lower_def parse_decimal_def CoerceToString_def)

lemma EvaluateRule_rule0:
  "EvaluateRule lib0 rule0 ''{\"status\":\"down\"}'' =
     \<lparr>ev_RuleName = ''status-down'', ev_Expression = ''$.status'',
      ev_ExtractedValue = VString ''down'', ev_ExpectedValue = VString ''down'',
      ev_Operator = ''eq'', ev_Matched = True, ev_Error = ''''\<rparr>"
  by (simp add: EvaluateRule_def rule0_def lib0_sel unmarshal0_def extractValue_status
      EvaluateOperator_eq_down)

theorem verdict_soundness_witness:
  "ev_Matched (EvaluateRule lib0 rule0 ''{\"status\":\"down\"}'')
   \<and> ev_Error (EvaluateRule lib0 rule0 ''{\"status\":\"down\"}'') = ''''"
  using verdict_soundness [of lib0 rule0 "''{\"status\":\"down\"}''"]
  by (simp add: EvaluateRule_rule0)

section \<open>Properties of the webhook dispatcher\<close>

lemma client_Do_live:
  "ctx_cancelled_at env = None \<Longrightarrow>
     client_Do env s = (http_do env (http_calls s),
        s\<lparr>http_calls := Suc (http_calls s),
          clock := time_Add (clock s) (http_elapsed env (http_calls s))\<rparr>)"
  by (simp add: client_Do_def ctx_done_def Let_def)

lemma select_live:
  "ctx_cancelled_at env = None \<Longrightarrow>
     select_After_Done env k c delay = (False, time_Add c (max 0 delay))"
  by (simp add: select_After_Done_def Let_def)

text \<open>
  Claim C7. When the circuit breaker forbids the attempt, SendAlert returns an AlertLog
  with no attempts and finalStatus "failed", together with the error "circuit breaker is
  open", and makes no HTTP round trip.
\<close>

theorem circuit_open_fast_fail:
  "\<not> fst (CanAttempt (circuitBreaker s) (clock s)) \<Longrightarrow>
     al_Attempts (fst (fst (SendAlert L env s webhook payload correlationID))) = []
     \<and> al_FinalStatus (fst (fst (SendAlert L env s webhook payload correlationID))) = ''failed''
     \<and> snd (fst (SendAlert L env s webhook payload correlationID)) = Some ''circuit breaker is open''
     \<and> http_calls (snd (SendAlert L env s webhook payload correlationID)) = http_calls s"
  by (cases "CanAttempt (circuitBreaker s) (clock s)")
     (simp add: SendAlert_def NewObjectID_def Let_def)


theorem circuit_open_fast_fail_witness:
  "\<not> fst (CanAttempt (circuitBreaker sys_open) (clock sys_open))
   \<and> al_Attempts (fst (fst (SendAlert lib0 env404 sys_open webhook0 payload0 ''c-1''))) = []
   \<and> al_FinalStatus (fst (fst (SendAlert lib0 env404 sys_open webhook0 payload0 ''c-1''))) = ''failed''
   \<and> http_calls (snd (SendAlert lib0 env404 sys_open webhook0 payload0 ''c-1'')) = 0"
proof -
  have h: "\<not> fst (CanAttempt (circuitBreaker sys_open) (clock sys_open))"
    by (simp add: sys_open_def sys0_def CanAttempt_def NewCircuitBreaker_def time_Sub_def
        Second_def minInt64_def maxInt64_def)
  have c: "http_calls sys_open = 0" by (simp add: sys_open_def sys0_def)
  show ?thesis
    using circuit_open_fast_fail [OF h, of lib0 env404 webhook0 payload0 "''c-1''"] h c by simp
qed

lemma itoa_404: "itoa 404 = ''404''"
  by code_simp

lemma itoa_3: "itoa 3 = ''3''"
  by code_simp

text \<open>A sink that answers 404 from the call \<open>n\<close> of \<open>client.Do\<close> on, with a context that
  is never cancelled.\<close>

lemma env404_sink:
  "sink404 env404 0"
  by (simp add: sink404_def env404_def resp404_def)

lemma deliverWebhook_404:
  assumes "sink404 env n" "n \<le> http_calls s"
  shows "deliverWebhook lib0 env s webhook0 p =
     ((\<lparr>at_AttemptNumber = 0, at_Timestamp = clock s, at_StatusCode = 404,
        at_ResponseBody = ''not found'', at_Error = ''Webhook returned status 404'',
        at_DurationMs = 5\<rparr>, Some ''webhook returned status 404''),
      s\<lparr>http_calls := Suc (http_calls s), clock := clock s + 5 * Millisecond\<rparr>)"
proof -
  have e: "http_do env (http_calls s) = DoResponse resp404"
    "http_elapsed env (http_calls s) = 5 * Millisecond"
    using assms by (simp_all add: sink404_def)
  have c: "ctx_cancelled_at env = None" using assms(1) by (simp add: sink404_def)
  show ?thesis
    by (simp add: deliverWebhook_def lib0_sel client_Do_live [OF c] e resp404_def
        ReadAllLimit_def itoa_404 Let_def time_Add_def time_Sub_def Milliseconds_def go_div_def
        Millisecond_def minInt64_def maxInt64_def)
qed

lemma retry0:
  "GetMaxAttempts (NewRetryStrategy (wh_RetryConfig webhook0)) = 3"
  "ShouldRetry (NewRetryStrategy (wh_RetryConfig webhook0)) 1 404 (Some e) = True"
  "ShouldRetry (NewRetryStrategy (wh_RetryConfig webhook0)) 2 404 (Some e) = True"
  "ShouldRetry (NewRetryStrategy (wh_RetryConfig webhook0)) 3 404 (Some e) = False"
  "ShouldRetry (NewRetryStrategy (wh_RetryConfig webhook0)) 1 404 None = False"
  by (simp_all add: GetMaxAttempts_def NewRetryStrategy_def webhook0_def SetDefaults_def
      ShouldRetry_def)

lemma delay0:
  "CalculateDelay (NewRetryStrategy (wh_RetryConfig webhook0)) 1 = 1000 * Millisecond"
  "CalculateDelay (NewRetryStrategy (wh_RetryConfig webhook0)) 2 = 2000 * Millisecond"
proof -
  have a: "InitialDelayMs (wh_RetryConfig webhook0) = 0 \<or> InitialDelayMs (wh_RetryConfig webhook0) = 1000"
    "MaxDelayMs (wh_RetryConfig webhook0) = 0 \<or> MaxDelayMs (wh_RetryConfig webhook0) = 30000"
    "Multiplier (wh_RetryConfig webhook0) = 0 \<or> Multiplier (wh_RetryConfig webhook0) = 2"
    by (simp_all add: webhook0_def)
  show "CalculateDelay (NewRetryStrategy (wh_RetryConfig webhook0)) 1 = 1000 * Millisecond"
    using default_delay [OF a, of 1] by simp
  show "CalculateDelay (NewRetryStrategy (wh_RetryConfig webhook0)) 2 = 2000 * Millisecond"
    using default_delay [OF a, of 2] by simp
qed

lemma send_loop_404:
  assumes "sink404 env n" "n \<le> http_calls s"
  shows "send_loop lib0 env (NewRetryStrategy (wh_RetryConfig webhook0)) webhook0 p 1 alertLog s =
     ((alertLog\<lparr>al_Attempts := al_Attempts alertLog @
          [\<lparr>at_AttemptNumber = 0, at_Timestamp = clock s, at_StatusCode = 404,
            at_ResponseBody = ''not found'', at_Error = ''Webhook returned status 404'',
            at_DurationMs = 5\<rparr>,
           \<lparr>at_AttemptNumber = 0, at_Timestamp = clock s + 1005 * Millisecond, at_StatusCode = 404,
            at_ResponseBody = ''not found'', at_Error = ''Webhook returned status 404'',
            at_DurationMs = 5\<rparr>,
           \<lparr>at_AttemptNumber = 0, at_Timestamp = clock s + 3010 * Millisecond, at_StatusCode = 404,
            at_ResponseBody = ''not found'', at_Error = ''Webhook returned status 404'',
            at_DurationMs = 5\<rparr>],
         al_FinalStatus := ''failed'', al_CompletedAt := clock s + 3015 * Millisecond\<rparr>,
       Some ''webhook delivery failed after 3 attempts''),
      s\<lparr>http_calls := Suc (Suc (Suc (http_calls s))), clock := clock s + 3015 * Millisecond,
        circuitBreaker := RecordFailure (circuitBreaker s) (clock s + 3015 * Millisecond)\<rparr>)"
proof -
  have "ctx_cancelled_at env = None" using assms(1) by (simp add: sink404_def)
  then have c: "select_After_Done env k t delay = (False, time_Add t (max 0 delay))" for k t delay
    by (rule select_live)
  have d: "deliverWebhook lib0 env s' webhook0 p =
     ((\<lparr>at_AttemptNumber = 0, at_Timestamp = clock s', at_StatusCode = 404,
        at_ResponseBody = ''not found'', at_Error = ''Webhook returned status 404'',
        at_DurationMs = 5\<rparr>, Some ''webhook returned status 404''),
      s'\<lparr>http_calls := Suc (http_calls s'), clock := clock s' + 5 * Millisecond\<rparr>)"
    if "http_calls s \<le> http_calls s'" for s'
    using assms that by (intro deliverWebhook_404 [of env n]) simp_all
  show ?thesis
    apply (subst send_loop.simps)
    apply (simp add: d retry0 delay0 Let_def c)
    apply (subst send_loop.simps)
    apply (simp add: d retry0 delay0 Let_def c)
    apply (subst send_loop.simps)
    apply (simp add: d retry0 delay0 Let_def c time_Add_def Millisecond_def itoa_3 add.commute)
    done
qed

lemma SendAlert_404:
  assumes "sink404 env n" "n \<le> http_calls s" "state (circuitBreaker s) = StateClosed"
  shows "snd (fst (SendAlert lib0 env s webhook0 p correlationID))
           = Some ''webhook delivery failed after 3 attempts''"
    and "map at_StatusCode (al_Attempts (fst (fst (SendAlert lib0 env s webhook0 p correlationID))))
           = [404, 404, 404]"
    and "al_FinalStatus (fst (fst (SendAlert lib0 env s webhook0 p correlationID))) = ''failed''"
    and "http_calls (snd (SendAlert lib0 env s webhook0 p correlationID)) = http_calls s + 3"
    and "failureCount (circuitBreaker (snd (SendAlert lib0 env s webhook0 p correlationID)))
           = wrap64 (failureCount (circuitBreaker s) + 1)"
  using assms
  by (simp_all add: SendAlert_def NewObjectID_def CanAttempt_def Let_def
      send_loop_404 [of env n] RecordFailure_def split: CircuitState.splits)

text \<open>
  Claim C2 fails on the code. deliverWebhook returns an error for every status outside
  2xx, so SendAlert calls ShouldRetry with a non-nil error and the 4xx branch is never
  reached: with the default retry configuration a sink that answers 404 to every request
  gets three attempts. finalStatus is "failed" and the failure count goes up by one, as
  claimed; ShouldRetry itself would not retry 404 with a nil error.
\<close>

theorem not_found_is_retried:
  "map at_StatusCode (al_Attempts (fst (fst (SendAlert lib0 env404 sys0 webhook0 payload0 ''c-1''))))
     = [404, 404, 404]
   \<and> al_FinalStatus (fst (fst (SendAlert lib0 env404 sys0 webhook0 payload0 ''c-1''))) = ''failed''
   \<and> http_calls (snd (SendAlert lib0 env404 sys0 webhook0 payload0 ''c-1'')) = 3
   \<and> failureCount (circuitBreaker (snd (SendAlert lib0 env404 sys0 webhook0 payload0 ''c-1'')))
       = failureCount (circuitBreaker sys0) + 1
   \<and> ShouldRetry (NewRetryStrategy (wh_RetryConfig webhook0)) 1 404 None = False"
proof -
  have c: "state (circuitBreaker sys0) = StateClosed" "failureCount (circuitBreaker sys0) = 0"
    "http_calls sys0 = 0"
    by (simp_all add: sys0_def NewCircuitBreaker_def)
  have n: "(0::nat) \<le> http_calls sys0" by simp
  show ?thesis
    using SendAlert_404 [OF env404_sink n c(1), of payload0 "''c-1''"] c(2,3) retry0(5)
    by (simp add: wrap64_def)
qed

section \<open>Properties of the execution engine\<close>




lemma ExecutionRepository_Create_other:
  "alert_logs (snd (ExecutionRepository_Create env s e)) = alert_logs s"
  "http_calls (snd (ExecutionRepository_Create env s e)) = http_calls s"
  "circuitBreaker (snd (ExecutionRepository_Create env s e)) = circuitBreaker s"
  by (simp_all add: ExecutionRepository_Create_def NewObjectID_def Let_def
      split: option.splits prod.splits)

lemma ExecutionRepository_Create_result:
  "eh_Status (snd (fst (ExecutionRepository_Create env s e))) = eh_Status e"
  "eh_RulesEvaluation (snd (fst (ExecutionRepository_Create env s e))) = eh_RulesEvaluation e"
  "eh_AlertsTriggered (snd (fst (ExecutionRepository_Create env s e))) = eh_AlertsTriggered e"
  "eh_Response (snd (fst (ExecutionRepository_Create env s e))) = eh_Response e"
  by (simp_all add: ExecutionRepository_Create_def NewObjectID_def Let_def
      split: option.splits prod.splits)

lemma ExecutionRepository_Create_store:
  "execution_history (snd (ExecutionRepository_Create env s e)) = execution_history s
   \<or> execution_history (snd (ExecutionRepository_Create env s e))
        = execution_history s @ [snd (fst (ExecutionRepository_Create env s e))]"
  by (simp add: ExecutionRepository_Create_def NewObjectID_def Let_def
      split: option.splits prod.splits)

lemma ExecutionRepository_Create_ok:
  "eh_ID e = 0 \<Longrightarrow> \<not> ctx_done env (clock s) \<Longrightarrow> db_fault env (db_ops s) = None \<Longrightarrow>
   \<forall>x \<in> set (execution_history s).
      eh_ID x \<noteq> Suc (ids_issued s) \<and> eh_CorrelationID x \<noteq> eh_CorrelationID e \<Longrightarrow>
   execution_history (snd (ExecutionRepository_Create env s e))
     = execution_history s @ [snd (fst (ExecutionRepository_Create env s e))]"
  by (auto simp: ExecutionRepository_Create_def NewObjectID_def db_error_def Let_def)

lemma client_Do_response:
  "client_Do env s = (DoResponse resp, s1) \<Longrightarrow> \<not> ctx_done env (clock s1)"
  by (auto simp: client_Do_def Let_def split: if_splits)

lemma callTargetAPI_ok_live:
  assumes "callTargetAPI L env s target = ((request, response, None), s2)"
  shows "\<not> ctx_done env (clock s2)"
proof -
  obtain out s1 where c: "client_Do env s = (out, s1)" by (metis surj_pair)
  from assms c obtain resp where "out = DoResponse resp" "s2 = s1"
    by (auto simp: callTargetAPI_def Let_def
        split: option.splits http_outcome.splits prod.splits)
  with c show ?thesis using client_Do_response by blast
qed

text \<open>
  Claim C10. When the target call returns no error and a status code outside [200, 300),
  Execute evaluates no rule and triggers no alert (no AlertLog, no HTTP round trip and no
  change of the circuit breaker after the target call), and the ExecutionHistory it
  returns and hands to the repository has status "success", not "failed", and an empty
  list of rule evaluations; the repository appends exactly this record when the insertion
  succeeds.
\<close>

theorem non_2xx_is_success:
  assumes "ObjectIDFromHex L configID = Inr objID"
    and "HealthCheckRepository_GetByID env s objID = (Inr cfg, s1)"
    and "hc_Enabled cfg"
    and "callTargetAPI L env s1 (hc_Target cfg) = ((request, response, None), s2)"
    and "rp_StatusCode response < 200 \<or> rp_StatusCode response \<ge> 300"
  shows "\<exists>execution s'.
           Execute L env s configID correlationID = (Inr execution, s')
           \<and> eh_Status execution = ''success''
           \<and> eh_Status execution \<noteq> ''failed''
           \<and> eh_RulesEvaluation execution = []
           \<and> eh_AlertsTriggered execution = []
           \<and> eh_Response execution = response
           \<and> alert_logs s' = alert_logs s2
           \<and> http_calls s' = http_calls s2
           \<and> circuitBreaker s' = circuitBreaker s2
           \<and> (execution_history s' = execution_history s2
                \<or> execution_history s' = execution_history s2 @ [execution])
           \<and> (db_fault env (db_ops s2) = None
                \<and> (\<forall>x \<in> set (execution_history s2).
                       eh_ID x \<noteq> Suc (ids_issued s2) \<and> eh_CorrelationID x \<noteq> correlationID)
                \<longrightarrow> execution_history s' = execution_history s2 @ [execution])"
proof -
  let ?e = "\<lparr>eh_ID = 0, eh_CorrelationID = correlationID, eh_ConfigID = hc_ID cfg,
             eh_ConfigName = hc_Name cfg, eh_ExecutedAt = clock s2,
             eh_DurationMs = Milliseconds (time_Sub (clock s2) (clock s)),
             eh_Request = request, eh_Response = response,
             eh_RulesEvaluation = [], eh_AlertsTriggered = [], eh_Status = ''success''\<rparr>"
  let ?r = "ExecutionRepository_Create env s2 ?e"
  have ex: "Execute L env s configID correlationID = (Inr (snd (fst ?r)), snd ?r)"
    using assms by (auto simp: Execute_def Let_def split: prod.splits)
  have live: "\<not> ctx_done env (clock s2)" using assms(4) by (rule callTargetAPI_ok_live)
  have ok: "db_fault env (db_ops s2) = None
                \<and> (\<forall>x \<in> set (execution_history s2).
                       eh_ID x \<noteq> Suc (ids_issued s2) \<and> eh_CorrelationID x \<noteq> correlationID)
                \<longrightarrow> execution_history (snd ?r) = execution_history s2 @ [snd (fst ?r)]"
    using ExecutionRepository_Create_ok [of ?e env s2] live by simp
  show ?thesis
    unfolding ex
    using ExecutionRepository_Create_store [of env s2 ?e] ok
    by (intro exI conjI refl)
       (simp_all add: ExecutionRepository_Create_other ExecutionRepository_Create_result)
qed









lemma cfg0_sel:
  "hc_Enabled cfg0" "hc_Target cfg0 = target0" "hc_Rules cfg0 = [rule0]" "hc_Webhook cfg0 = webhook0"
  "hc_ID cfg0 = 1"
  by (simp_all add: cfg0_def)



















lemma GetByID_sys1:
  "db_error env sys1 = None \<Longrightarrow>
     HealthCheckRepository_GetByID env sys1 1 = (Inr cfg0, sys1\<lparr>db_ops := Suc 0\<rparr>)"
  by (simp add: HealthCheckRepository_GetByID_def Let_def) (simp add: sys1_def sys0_def cfg0_def)

lemma callTargetAPI_target0:
  assumes "ctx_cancelled_at env = None" "http_do env (http_calls s) = DoResponse resp"
    "hr_ReadErr resp = None"
  shows "snd (snd (fst (callTargetAPI lib0 env s target0))) = None"
    and "rp_StatusCode (fst (snd (fst (callTargetAPI lib0 env s target0)))) = hr_StatusCode resp"
    and "rp_Body (fst (snd (fst (callTargetAPI lib0 env s target0))))
           = take (1024 * 1024) (hr_Body resp)"
    and "snd (callTargetAPI lib0 env s target0)
           = s\<lparr>http_calls := Suc (http_calls s),
                clock := time_Add (clock s) (http_elapsed env (http_calls s))\<rparr>"
  using assms(2,3)
  by (simp_all add: callTargetAPI_def lib0_sel target0_def setAuthentication_def ascii_lower_def
      client_Do_live [OF assms(1)] ReadAllLimit_def Let_def)

theorem non_2xx_is_success_witness:
  "ObjectIDFromHex lib0 ''1'' = Inr 1
   \<and> hc_Enabled cfg0
   \<and> rp_StatusCode (fst (snd (fst (callTargetAPI lib0 env404 (sys1\<lparr>db_ops := Suc 0\<rparr>)
                                      (hc_Target cfg0))))) = 404
   \<and> \<not> isl (fst (Execute lib0 env404 sys1 ''1'' ''c-1''))
   \<and> eh_Status (projr (fst (Execute lib0 env404 sys1 ''1'' ''c-1''))) = ''success''
   \<and> eh_RulesEvaluation (projr (fst (Execute lib0 env404 sys1 ''1'' ''c-1''))) = []
   \<and> eh_AlertsTriggered (projr (fst (Execute lib0 env404 sys1 ''1'' ''c-1''))) = []
   \<and> alert_logs (snd (Execute lib0 env404 sys1 ''1'' ''c-1'')) = []"
proof -
  let ?s1 = "sys1\<lparr>db_ops := Suc 0\<rparr>"
  let ?ct = "callTargetAPI lib0 env404 ?s1 target0"
  have hex: "ObjectIDFromHex lib0 ''1'' = Inr 1"
    by (simp add: lib0_sel parse_decimal_def)
  have live: "ctx_cancelled_at env404 = None" by (simp add: env404_def)
  have get: "HealthCheckRepository_GetByID env404 sys1 1 = (Inr cfg0, ?s1)"
    by (rule GetByID_sys1) (simp add: db_error_def ctx_done_def env404_def)
  have h: "http_do env404 (http_calls ?s1) = DoResponse resp404" by (simp add: env404_def)
  have r: "hr_ReadErr resp404 = None" "hr_StatusCode resp404 = 404" by (simp_all add: resp404_def)
  note ct = callTargetAPI_target0 [OF live h r(1)]
  have st: "rp_StatusCode (fst (snd (fst ?ct))) = 404" using ct(2) r(2) by simp
  have call: "callTargetAPI lib0 env404 ?s1 (hc_Target cfg0)
                = ((fst (fst ?ct), fst (snd (fst ?ct)), None), snd ?ct)"
    using ct(1) by (simp add: cfg0_sel prod_eq_iff)
  have out: "rp_StatusCode (fst (snd (fst ?ct))) < 200 \<or> rp_StatusCode (fst (snd (fst ?ct))) \<ge> 300"
    using st by simp
  have logs: "alert_logs (snd ?ct) = []"
    using ct(4) by (simp add: sys1_def sys0_def)
  from non_2xx_is_success [OF hex get cfg0_sel(1) call out, of "''c-1''"]
  obtain execution s' where
    "Execute lib0 env404 sys1 ''1'' ''c-1'' = (Inr execution, s')"
    "eh_Status execution = ''success''" "eh_RulesEvaluation execution = []"
    "eh_AlertsTriggered execution = []" "alert_logs s' = alert_logs (snd ?ct)"
    by blast
  then show ?thesis using hex st logs by (simp add: cfg0_sel)
qed

end
